theory Spec2Isabelle
  imports Main
begin

section \<open>Strings and thrown values\<close>

text \<open>
  A JavaScript string is a sequence of UTF-16 code units. The names the parser looks for
  are Cyrillic, and \<open>trim\<close> is defined on code units, so strings are lists of code
  units here; ASCII text is written through \<open>str\<close>.
\<close>

type_synonym jsstring = "nat list"

definition str :: "string \<Rightarrow> jsstring" where
  "str s = map of_char s"

text \<open>
  What a \<open>throw\<close> (or a rejected promise) carries: an \<open>Error\<close> object with its
  \<open>message\<close>, or any other value.
\<close>

datatype thrown = JsError jsstring | NonError

text \<open>The white space and line terminators that \<open>String.prototype.trim\<close> removes.\<close>

definition isWhiteSpace :: "nat \<Rightarrow> bool" where
  "isWhiteSpace c \<longleftrightarrow>
     (9 \<le> c \<and> c \<le> 13) \<or> c = 32 \<or> c = 160 \<or> c = 5760 \<or> (8192 \<le> c \<and> c \<le> 8202) \<or>
     c = 8232 \<or> c = 8233 \<or> c = 8239 \<or> c = 8287 \<or> c = 12288 \<or> c = 65279"

definition trim :: "jsstring \<Rightarrow> jsstring" where
  "trim s = rev (dropWhile isWhiteSpace (rev (dropWhile isWhiteSpace s)))"

text \<open>Decimal rendering of a number in a template literal and by \<open>toString\<close>.\<close>

fun showNat :: "nat \<Rightarrow> jsstring" where
  "showNat n = (if n < 10 then [48 + n] else showNat (n div 10) @ [48 + n mod 10])"

declare showNat.simps [simp del]

definition toString :: "int \<Rightarrow> jsstring" where
  "toString i = (if i < 0 then 45 # showNat (nat (- i)) else showNat (nat i))"

section \<open>types.ts\<close>

record ButtonStatus =
  isEnabled :: bool
  href :: jsstring

record ParseResult =
  aktobe :: ButtonStatus
  realMadrid :: ButtonStatus

section \<open>parser.ts\<close>

definition BASE_URL :: jsstring where
  "BASE_URL = str ''https://fckairat.com/match''"

text \<open>The two opponent names, written in Cyrillic in the source: Aktobe and Real Madrid.\<close>

definition AKTOBE :: jsstring where
  "AKTOBE = [1040, 1082, 1090, 1086, 1073, 1077]"

definition REAL_MADRID :: jsstring where
  "REAL_MADRID = [1056, 1077, 1072, 1083, 32, 1052, 1072, 1076, 1088, 1080, 1076]"

text \<open>
  The document is seen through the selections the parser makes. An element of the
  selection \<open>matchBlock.find(TICKET_BUTTON_SELECTOR)\<close> has its class names and, when
  the attribute is there, the value of its \<open>href\<close> attribute. A match block has the
  texts of the elements that \<open>find(TEAM_NAME_SELECTOR)\<close> selects in it, in document
  order, and its selection of ticket buttons. \<open>$(MATCH_BLOCK_SELECTOR)\<close> is the list
  of the blocks of the page.
\<close>

record element =
  classes :: "jsstring list"
  hrefAttr :: "jsstring option"

record match_block =
  teamNames :: "jsstring list"
  buttons :: "element list"

text \<open>
  \<open>hasClass\<close> of a selection holds when some element of it has the class;
  \<open>attr\<close> of a selection reads the first element.
\<close>

definition hasClass :: "element list \<Rightarrow> jsstring \<Rightarrow> bool" where
  "hasClass sel c = list_ex (\<lambda>e. c \<in> set (classes e)) sel"

definition attrHref :: "element list \<Rightarrow> jsstring option" where
  "attrHref sel = (case sel of [] \<Rightarrow> None | e # _ \<Rightarrow> hrefAttr e)"

text \<open>
  The inner loop of \<open>findMatchByOpponent\<close> over the team names of one block:
  \<open>foundOpponent\<close> after the loop.
\<close>

fun foundOpponent :: "jsstring list \<Rightarrow> jsstring \<Rightarrow> bool" where
  "foundOpponent [] opponentName = False"
| "foundOpponent (t # ts) opponentName =
     (if trim t = opponentName then True else foundOpponent ts opponentName)"

text \<open>
  \<open>new URL(href, base).href\<close> belongs to the platform, and it throws on a reference it
  cannot parse: the parser is a parameter \<open>url\<close> of the functions that use it.
  \<open>findMatchByOpponent\<close> returns \<open>Inr None\<close> for \<open>null\<close>. An \<open>href\<close> that
  is \<open>undefined\<close> or the empty string is falsy, and gives the empty link.
  Console output is not part of the model.
\<close>

fun findMatchByOpponent ::
  "(jsstring \<Rightarrow> jsstring \<Rightarrow> thrown + jsstring) \<Rightarrow> match_block list \<Rightarrow> jsstring
     \<Rightarrow> thrown + ButtonStatus option" where
  "findMatchByOpponent url [] opponentName = Inr None"
| "findMatchByOpponent url (matchBlock # rest) opponentName =
     (if foundOpponent (teamNames matchBlock) opponentName then
        (let button = buttons matchBlock in
         if length button = 0 then findMatchByOpponent url rest opponentName
         else
           (let enabled = \<not> hasClass button (str ''disabled'') in
            case attrHref button of
              None \<Rightarrow> Inr (Some \<lparr>isEnabled = enabled, href = []\<rparr>)
            | Some h \<Rightarrow>
                if h = [] then Inr (Some \<lparr>isEnabled = enabled, href = []\<rparr>)
                else (case url h BASE_URL of
                        Inl e \<Rightarrow> Inl e
                      | Inr u \<Rightarrow> Inr (Some \<lparr>isEnabled = enabled, href = u\<rparr>))))
      else findMatchByOpponent url rest opponentName)"

text \<open>The messages of the errors that \<open>parseButtons\<close> throws.\<close>

definition noMatchBlocks :: jsstring where
  "noMatchBlocks = str ''No match blocks found on the page''"

definition matchNotFound :: "jsstring \<Rightarrow> jsstring" where
  "matchNotFound opponentName =
     str ''Match against '' @ opponentName @ str '' not found on the page''"

definition httpError :: "jsstring \<Rightarrow> nat option \<Rightarrow> jsstring" where
  "httpError message status =
     str ''HTTP error: '' @ message @
     (case status of Some n \<Rightarrow> str '' (Status: '' @ showNat n @ str '')'' | None \<Rightarrow> [])"

text \<open>
  What \<open>axios.get\<close> and \<open>cheerio.load\<close> give: an axios error with its message and,
  when there was a response, its status; or the loaded page.
\<close>

datatype http_outcome = AxiosError jsstring "nat option" | Loaded "match_block list"

text \<open>
  The body of \<open>parseButtons\<close> on the outcome of its request. Both lookups run before
  either result is tested; an axios error is wrapped, anything else is thrown again as
  it is.
\<close>

definition parsePage ::
  "(jsstring \<Rightarrow> jsstring \<Rightarrow> thrown + jsstring) \<Rightarrow> http_outcome \<Rightarrow> thrown + ParseResult" where
  "parsePage url response =
     (case response of
        AxiosError message status \<Rightarrow> Inl (JsError (httpError message status))
      | Loaded matchBlocks \<Rightarrow>
          if length matchBlocks = 0 then Inl (JsError noMatchBlocks)
          else
            (case findMatchByOpponent url matchBlocks AKTOBE of
               Inl e \<Rightarrow> Inl e
             | Inr aktobeMatch \<Rightarrow>
                 (case findMatchByOpponent url matchBlocks REAL_MADRID of
                    Inl e \<Rightarrow> Inl e
                  | Inr realMadridMatch \<Rightarrow>
                      (case aktobeMatch of
                         None \<Rightarrow> Inl (JsError (matchNotFound AKTOBE))
                       | Some a \<Rightarrow>
                           (case realMadridMatch of
                              None \<Rightarrow> Inl (JsError (matchNotFound REAL_MADRID))
                            | Some r \<Rightarrow> Inr \<lparr>aktobe = a, realMadrid = r\<rparr>)))))"

section \<open>Effects\<close>

text \<open>
  The program talks to the site, to the chat transport and to the clock. Each such call
  is an event of a trace, and the world it runs in decides its outcome: the outcome of a
  call is a function of the number of events before it, so that every sequence of
  outcomes is some environment. \<open>CHAT_ID\<close> is the configured recipient; the process
  does not start without it.
\<close>

datatype notification =
    StatusChange jsstring jsstring
  | Operational jsstring
  | ErrorNote jsstring jsstring
  | ManualStatus "jsstring option" "jsstring option" jsstring
  | Startup jsstring
  | Help

datatype event = Get | Sleep nat | Send jsstring notification

record env =
  new_URL :: "jsstring \<Rightarrow> jsstring \<Rightarrow> thrown + jsstring"
  axios_get :: "nat \<Rightarrow> http_outcome"
  bot_sendMessage :: "nat \<Rightarrow> jsstring \<Rightarrow> notification \<Rightarrow> thrown option"
  formatInTimeZone :: "nat \<Rightarrow> jsstring"
  CHAT_ID :: jsstring

text \<open>
  The module state of the entry point (\<open>previousStatus\<close>, \<open>isChecking\<close>) and the
  trace so far. An asynchronous function is a function from the world to its outcome,
  \<open>Inl\<close> a rejection, and the world after it.
\<close>

record world =
  previousStatus :: "ParseResult option"
  isChecking :: bool
  events :: "event list"

type_synonym 'a action = "world \<Rightarrow> (thrown + 'a) \<times> world"

definition emit :: "event \<Rightarrow> world \<Rightarrow> world" where
  "emit ev w = w\<lparr>events := events w @ [ev]\<rparr>"

text \<open>\<open>parseButtons\<close>: one GET, then the body above on what it gave.\<close>

definition parseButtons :: "env \<Rightarrow> ParseResult action" where
  "parseButtons E w = (parsePage (new_URL E) (axios_get E (length (events w))), emit Get w)"

definition parseButtonsWithRetry :: "env \<Rightarrow> ParseResult action" where
  "parseButtonsWithRetry E w =
     (case parseButtons E w of
        (Inr result, w1) \<Rightarrow> (Inr result, w1)
      | (Inl error, w1) \<Rightarrow> parseButtons E (emit (Sleep 2000) w1))"

section \<open>notifier.ts\<close>

text \<open>
  A message is kept as its kind and the values its template is filled with (the fixed
  words of the templates are left out):
  \<open>StatusChange eventTitle href\<close>, \<open>Operational lastTime\<close>,
  \<open>ErrorNote errorText timestamp\<close>, \<open>ManualStatus\<close> with the link of each match
  that is enabled and the timestamp, \<open>Startup timestamp\<close>, and the help text.
\<close>

definition getFormattedTime :: "env \<Rightarrow> world \<Rightarrow> jsstring" where
  "getFormattedTime E w = formatInTimeZone E (length (events w))"

definition sendNotification :: "env \<Rightarrow> jsstring \<Rightarrow> notification \<Rightarrow> unit action" where
  "sendNotification E chatId message w =
     (case bot_sendMessage E (length (events w)) chatId message of
        None \<Rightarrow> (Inr (), emit (Send chatId message) w)
      | Some error \<Rightarrow> (Inl error, emit (Send chatId message) w))"

definition sendStatusChange :: "env \<Rightarrow> jsstring \<Rightarrow> jsstring \<Rightarrow> jsstring \<Rightarrow> unit action" where
  "sendStatusChange E chatId eventTitle link w =
     sendNotification E chatId (StatusChange eventTitle link) w"

definition sendOperational :: "env \<Rightarrow> jsstring \<Rightarrow> unit action" where
  "sendOperational E chatId w =
     sendNotification E chatId (Operational (getFormattedTime E w)) w"

definition sendError :: "env \<Rightarrow> jsstring \<Rightarrow> jsstring \<Rightarrow> unit action" where
  "sendError E chatId errorText w =
     sendNotification E chatId (ErrorNote errorText (getFormattedTime E w)) w"

definition statusLine :: "ButtonStatus \<Rightarrow> jsstring option" where
  "statusLine b = (if isEnabled b then Some (href b) else None)"

definition sendManualStatus :: "env \<Rightarrow> jsstring \<Rightarrow> ParseResult \<Rightarrow> unit action" where
  "sendManualStatus E chatId result w =
     sendNotification E chatId
       (ManualStatus (statusLine (aktobe result)) (statusLine (realMadrid result))
          (getFormattedTime E w)) w"

definition sendStartupNotification :: "env \<Rightarrow> jsstring \<Rightarrow> unit action" where
  "sendStartupNotification E chatId w =
     sendNotification E chatId (Startup (getFormattedTime E w)) w"

section \<open>The entry point\<close>

text \<open>The two event titles, in Cyrillic: "match with" Aktobe, and with Real Madrid.\<close>

definition TITLE_AKTOBE :: jsstring where
  "TITLE_AKTOBE = [1052, 1072, 1090, 1095, 32, 1089, 32, 1040, 1082, 1090, 1086, 1073, 1077]"

definition TITLE_REAL_MADRID :: jsstring where
  "TITLE_REAL_MADRID =
     [1052, 1072, 1090, 1095, 32, 1089, 32,
      1056, 1077, 1072, 1083, 32, 1052, 1072, 1076, 1088, 1080, 1076]"

text \<open>\<open>error instanceof Error ? error.message : "Unknown error"\<close>\<close>

definition errorText :: "thrown \<Rightarrow> jsstring" where
  "errorText error = (case error of JsError message \<Rightarrow> message | NonError \<Rightarrow> str ''Unknown error'')"

text \<open>
  The comparison with the previous status in \<open>checkAndNotify\<close>: the two tests in
  their order, each awaiting its notification, so that a rejected first notification
  leaves the block.
\<close>

definition notifyChanges :: "env \<Rightarrow> ParseResult option \<Rightarrow> ParseResult \<Rightarrow> unit action" where
  "notifyChanges E previous result w =
     (case previous of
        None \<Rightarrow> (Inr (), w)
      | Some prev \<Rightarrow>
          (case (if \<not> isEnabled (aktobe prev) \<and> isEnabled (aktobe result)
                 then sendStatusChange E (CHAT_ID E) TITLE_AKTOBE (href (aktobe result)) w
                 else (Inr (), w)) of
             (Inl error, w1) \<Rightarrow> (Inl error, w1)
           | (Inr _, w1) \<Rightarrow>
               (if \<not> isEnabled (realMadrid prev) \<and> isEnabled (realMadrid result)
                then sendStatusChange E (CHAT_ID E) TITLE_REAL_MADRID (href (realMadrid result)) w1
                else (Inr (), w1))))"

text \<open>
  The \<open>try\<close> block of \<open>checkAndNotify\<close>. The time read after the fetch only goes
  to the console.
\<close>

definition checkBody :: "env \<Rightarrow> unit action" where
  "checkBody E w =
     (case parseButtonsWithRetry E w of
        (Inl error, w1) \<Rightarrow> (Inl error, w1)
      | (Inr result, w1) \<Rightarrow>
          (case notifyChanges E (previousStatus w1) result w1 of
             (Inl error, w2) \<Rightarrow> (Inl error, w2)
           | (Inr _, w2) \<Rightarrow> (Inr (), w2\<lparr>previousStatus := Some result\<rparr>)))"

text \<open>
  \<open>checkAndNotify\<close>: the guard, the \<open>try\<close> block, the \<open>catch\<close> that sends the
  error text, and the \<open>finally\<close> that clears the guard whatever the outcome.
\<close>

definition checkAndNotify :: "env \<Rightarrow> unit action" where
  "checkAndNotify E w =
     (if isChecking w then (Inr (), w)
      else
        (let (r, w2) = (case checkBody E (w\<lparr>isChecking := True\<rparr>) of
                          (Inr u, w1) \<Rightarrow> (Inr u, w1)
                        | (Inl error, w1) \<Rightarrow> sendError E (CHAT_ID E) (errorText error) w1)
         in (r, w2\<lparr>isChecking := False\<rparr>)))"

text \<open>
  The handler of \<open>/status\<close>, on the chat id of the message: nothing for another chat;
  else a fetch and the manual status, and an error note when either of them throws.
\<close>

definition onStatus :: "env \<Rightarrow> int \<Rightarrow> unit action" where
  "onStatus E msgChatId w =
     (let chatId = toString msgChatId in
      if chatId \<noteq> CHAT_ID E then (Inr (), w)
      else
        (case (case parseButtonsWithRetry E w of
                 (Inl error, w1) \<Rightarrow> (Inl error, w1)
               | (Inr result, w1) \<Rightarrow> sendManualStatus E chatId result w1) of
           (Inr u, w2) \<Rightarrow> (Inr u, w2)
         | (Inl error, w2) \<Rightarrow> sendError E chatId (errorText error) w2))"

text \<open>
  The handler of \<open>/help\<close>: it calls \<open>bot.sendMessage\<close> itself and only logs a
  failure.
\<close>

definition onHelp :: "env \<Rightarrow> int \<Rightarrow> unit action" where
  "onHelp E msgChatId w =
     (let chatId = toString msgChatId in
      if chatId \<noteq> CHAT_ID E then (Inr (), w)
      else (Inr (), emit (Send chatId Help) w))"

text \<open>
  The job of every third hour: a failure to send is only logged. The start of the
  process and its signal handlers are not modelled.
\<close>

definition operationalJob :: "env \<Rightarrow> unit action" where
  "operationalJob E w = (Inr (), snd (sendOperational E (CHAT_ID E) w))"

section \<open>Suspended at an await\<close>

text \<open>
  The functions above run a whole asynchronous function as one step. Here the same
  functions are written with their awaits, so that what happens while one of them is
  suspended can be stated. A task is done with its outcome, or awaits the GET, the
  timer or \<open>sendMessage\<close> and goes on with what that gives, or reads or writes the
  module state on its way.
\<close>

datatype 'a task =
    Done "thrown + 'a"
  | AwaitGet "http_outcome \<Rightarrow> 'a task"
  | AwaitSleep nat "'a task"
  | AwaitSend jsstring notification "thrown option \<Rightarrow> 'a task"
  | Read "world \<Rightarrow> 'a task"
  | Write "world \<Rightarrow> world" "'a task"

text \<open>
  Running a task: at each await the request joins the trace, the other handlers of the
  process run on the world (\<open>others\<close>), and the task goes on in the world they
  leave, with the outcome that the environment gives to the request.
  \<open>suspensions\<close> lists the worlds in which the task is suspended, request issued,
  as the other handlers find them.
\<close>

primrec run :: "env \<Rightarrow> (world \<Rightarrow> world) \<Rightarrow> 'a task \<Rightarrow> world \<Rightarrow> (thrown + 'a) \<times> world" where
  "run E others (Done r) w = (r, w)"
| "run E others (AwaitGet k) w =
     run E others (k (axios_get E (length (events w)))) (others (emit Get w))"
| "run E others (AwaitSleep ms t) w = run E others t (others (emit (Sleep ms) w))"
| "run E others (AwaitSend chatId message k) w =
     run E others (k (bot_sendMessage E (length (events w)) chatId message))
       (others (emit (Send chatId message) w))"
| "run E others (Read f) w = run E others (f w) w"
| "run E others (Write g t) w = run E others t (g w)"

primrec suspensions :: "env \<Rightarrow> (world \<Rightarrow> world) \<Rightarrow> 'a task \<Rightarrow> world \<Rightarrow> world list" where
  "suspensions E others (Done r) w = []"
| "suspensions E others (AwaitGet k) w =
     emit Get w #
     suspensions E others (k (axios_get E (length (events w)))) (others (emit Get w))"
| "suspensions E others (AwaitSleep ms t) w =
     emit (Sleep ms) w # suspensions E others t (others (emit (Sleep ms) w))"
| "suspensions E others (AwaitSend chatId message k) w =
     emit (Send chatId message) w #
     suspensions E others (k (bot_sendMessage E (length (events w)) chatId message))
       (others (emit (Send chatId message) w))"
| "suspensions E others (Read f) w = suspensions E others (f w) w"
| "suspensions E others (Write g t) w = suspensions E others t (g w)"

text \<open>Sequencing on the outcome of a task: what \<open>try\<close>, \<open>catch\<close> and \<open>finally\<close> are made of.\<close>

primrec andThen :: "'a task \<Rightarrow> (thrown + 'a \<Rightarrow> 'b task) \<Rightarrow> 'b task" where
  "andThen (Done r) f = f r"
| "andThen (AwaitGet k) f = AwaitGet (\<lambda>response. andThen (k response) f)"
| "andThen (AwaitSleep ms t) f = AwaitSleep ms (andThen t f)"
| "andThen (AwaitSend chatId message k) f = AwaitSend chatId message (\<lambda>outcome. andThen (k outcome) f)"
| "andThen (Read g) f = Read (\<lambda>w. andThen (g w) f)"
| "andThen (Write g t) f = Write g (andThen t f)"

text \<open>For the proofs: a task none of whose writes changes \<open>isChecking\<close>.\<close>

primrec keepsGuard :: "'a task \<Rightarrow> bool" where
  "keepsGuard (Done r) = True"
| "keepsGuard (AwaitGet k) = (\<forall>response. keepsGuard (k response))"
| "keepsGuard (AwaitSleep ms t) = keepsGuard t"
| "keepsGuard (AwaitSend chatId message k) = (\<forall>outcome. keepsGuard (k outcome))"
| "keepsGuard (Read f) = (\<forall>w. keepsGuard (f w))"
| "keepsGuard (Write g t) = ((\<forall>w. isChecking (g w) = isChecking w) \<and> keepsGuard t)"

text \<open>
  \<open>parseButtons\<close>, \<open>parseButtonsWithRetry\<close>, the notifier and \<open>checkAndNotify\<close>
  with their awaits; run with no other handler they are the functions above.
\<close>

definition parseButtons_task :: "env \<Rightarrow> ParseResult task" where
  "parseButtons_task E = AwaitGet (\<lambda>response. Done (parsePage (new_URL E) response))"

definition parseButtonsWithRetry_task :: "env \<Rightarrow> ParseResult task" where
  "parseButtonsWithRetry_task E =
     andThen (parseButtons_task E)
       (\<lambda>r. case r of
              Inr result \<Rightarrow> Done (Inr result)
            | Inl error \<Rightarrow> AwaitSleep 2000 (parseButtons_task E))"

definition sendNotification_task :: "jsstring \<Rightarrow> notification \<Rightarrow> unit task" where
  "sendNotification_task chatId message =
     AwaitSend chatId message
       (\<lambda>outcome. case outcome of None \<Rightarrow> Done (Inr ()) | Some error \<Rightarrow> Done (Inl error))"

definition sendStatusChange_task :: "jsstring \<Rightarrow> jsstring \<Rightarrow> jsstring \<Rightarrow> unit task" where
  "sendStatusChange_task chatId eventTitle link =
     sendNotification_task chatId (StatusChange eventTitle link)"

definition sendError_task :: "env \<Rightarrow> jsstring \<Rightarrow> jsstring \<Rightarrow> unit task" where
  "sendError_task E chatId text =
     Read (\<lambda>w. sendNotification_task chatId (ErrorNote text (getFormattedTime E w)))"

definition notifyChanges_task :: "env \<Rightarrow> ParseResult option \<Rightarrow> ParseResult \<Rightarrow> unit task" where
  "notifyChanges_task E previous result =
     (case previous of
        None \<Rightarrow> Done (Inr ())
      | Some prev \<Rightarrow>
          andThen
            (if \<not> isEnabled (aktobe prev) \<and> isEnabled (aktobe result)
             then sendStatusChange_task (CHAT_ID E) TITLE_AKTOBE (href (aktobe result))
             else Done (Inr ()))
            (\<lambda>r. case r of
                   Inl error \<Rightarrow> Done (Inl error)
                 | Inr _ \<Rightarrow>
                     (if \<not> isEnabled (realMadrid prev) \<and> isEnabled (realMadrid result)
                      then sendStatusChange_task (CHAT_ID E) TITLE_REAL_MADRID
                             (href (realMadrid result))
                      else Done (Inr ()))))"

definition checkBody_task :: "env \<Rightarrow> unit task" where
  "checkBody_task E =
     andThen (parseButtonsWithRetry_task E)
       (\<lambda>r. case r of
              Inl error \<Rightarrow> Done (Inl error)
            | Inr result \<Rightarrow>
                Read (\<lambda>w.
                  andThen (notifyChanges_task E (previousStatus w) result)
                    (\<lambda>r. case r of
                           Inl error \<Rightarrow> Done (Inl error)
                         | Inr _ \<Rightarrow>
                             Write (\<lambda>w. w\<lparr>previousStatus := Some result\<rparr>) (Done (Inr ())))))"

definition checkAndNotify_task :: "env \<Rightarrow> unit task" where
  "checkAndNotify_task E =
     Read (\<lambda>w.
       if isChecking w then Done (Inr ())
       else
         Write (\<lambda>w. w\<lparr>isChecking := True\<rparr>)
           (andThen
              (andThen (checkBody_task E)
                 (\<lambda>r. case r of
                        Inr _ \<Rightarrow> Done (Inr ())
                      | Inl error \<Rightarrow> sendError_task E (CHAT_ID E) (errorText error)))
              (\<lambda>r. Write (\<lambda>w. w\<lparr>isChecking := False\<rparr>) (Done r))))"

text \<open>Another handler for the examples: the schedule fires \<open>checkAndNotify\<close> again.\<close>

definition retrigger :: "env \<Rightarrow> world \<Rightarrow> world" where
  "retrigger E w = snd (checkAndNotify E w)"

section \<open>Observing a trace\<close>

text \<open>
  What a trace holds of each kind: the messages handed to the transport, with their
  recipient; of these the status changes, as event title and link, and the texts of the
  error notes.
\<close>

fun sends :: "event list \<Rightarrow> (jsstring \<times> notification) list" where
  "sends [] = []"
| "sends (Send chatId message # es) = (chatId, message) # sends es"
| "sends (_ # es) = sends es"

fun statusChangeOf :: "jsstring \<times> notification \<Rightarrow> (jsstring \<times> jsstring) list" where
  "statusChangeOf (chatId, StatusChange eventTitle link) = [(eventTitle, link)]"
| "statusChangeOf _ = []"

fun errorNoteOf :: "jsstring \<times> notification \<Rightarrow> jsstring list" where
  "errorNoteOf (chatId, ErrorNote text timestamp) = [text]"
| "errorNoteOf _ = []"

definition statusChanges :: "event list \<Rightarrow> (jsstring \<times> jsstring) list" where
  "statusChanges es = concat (map statusChangeOf (sends es))"

definition errorNotes :: "event list \<Rightarrow> jsstring list" where
  "errorNotes es = concat (map errorNoteOf (sends es))"

section \<open>Example pages and environments\<close>

text \<open>
  A URL parser for the examples. On the empty reference it gives the base, and on
  \<open>/tickets/1\<close> against \<open>BASE_URL\<close> the path on the site's origin, as the
  platform's parser does; it rejects every other reference, with the message the
  platform has for a reference it cannot parse, such as \<open>http://[\<close>.
\<close>

definition exampleURL :: "jsstring \<Rightarrow> jsstring \<Rightarrow> thrown + jsstring" where
  "exampleURL h base =
     (if h = [] then Inr base
      else if h = str ''/tickets/1'' \<and> base = BASE_URL
      then Inr (str ''https://fckairat.com/tickets/1'')
      else Inl (JsError (str ''Invalid URL'')))"

definition buttonClasses :: "jsstring list" where
  "buttonClasses = [str ''match-block__tickets'', str ''skew'', str ''simple-filled-btn'']"

text \<open>
  A ticket button on sale, and a disabled one whose \<open>href\<close> attribute is there and
  empty.
\<close>

definition openButton :: element where
  "openButton = \<lparr>classes = buttonClasses, hrefAttr = Some (str ''/tickets/1'')\<rparr>"

definition disabledButton :: element where
  "disabledButton = \<lparr>classes = buttonClasses @ [str ''disabled''], hrefAttr = Some []\<rparr>"

text \<open>A ticket button whose \<open>href\<close> is no URL: a host that opens a bracket and ends.\<close>

definition brokenButton :: element where
  "brokenButton = \<lparr>classes = buttonClasses, hrefAttr = Some (str ''http://['')\<rparr>"

text \<open>
  A block of each match with a given selection of buttons; the name of Aktobe comes
  second and with white space around it.
\<close>

definition aktobeBlock :: "element list \<Rightarrow> match_block" where
  "aktobeBlock bs = \<lparr>teamNames = [str ''Kairat'', [32, 10] @ AKTOBE @ [32]], buttons = bs\<rparr>"

definition realMadridBlock :: "element list \<Rightarrow> match_block" where
  "realMadridBlock bs = \<lparr>teamNames = [REAL_MADRID], buttons = bs\<rparr>"

definition pageOnSale :: "match_block list" where
  "pageOnSale = [aktobeBlock [openButton], realMadridBlock [openButton]]"

definition pageClosed :: "match_block list" where
  "pageClosed = [aktobeBlock [disabledButton], realMadridBlock [disabledButton]]"

definition pageAktobeOnly :: "match_block list" where
  "pageAktobeOnly = [aktobeBlock [openButton]]"

definition pageNoButton :: "match_block list" where
  "pageNoButton = [realMadridBlock []]"

definition pageAktobeNoButton :: "match_block list" where
  "pageAktobeNoButton = [aktobeBlock [], realMadridBlock [openButton]]"

definition pageRealMadridNoButton :: "match_block list" where
  "pageRealMadridNoButton = [aktobeBlock [openButton], realMadridBlock []]"

definition pageBrokenLink :: "match_block list" where
  "pageBrokenLink = [realMadridBlock [brokenButton]]"

definition onSale :: ParseResult where
  "onSale =
     \<lparr>aktobe = \<lparr>isEnabled = True, href = str ''https://fckairat.com/tickets/1''\<rparr>,
      realMadrid = \<lparr>isEnabled = True, href = str ''https://fckairat.com/tickets/1''\<rparr>\<rparr>"

definition closed :: ParseResult where
  "closed =
     \<lparr>aktobe = \<lparr>isEnabled = False, href = []\<rparr>,
      realMadrid = \<lparr>isEnabled = False, href = []\<rparr>\<rparr>"

text \<open>
  An environment from what every GET gives and what every \<open>sendMessage\<close> does, with
  recipient 42.
\<close>

definition exampleEnv :: "(nat \<Rightarrow> http_outcome) \<Rightarrow> thrown option \<Rightarrow> env" where
  "exampleEnv get send =
     \<lparr>new_URL = exampleURL, axios_get = get, bot_sendMessage = (\<lambda>n chatId message. send),
      formatInTimeZone = (\<lambda>n. str ''2025-08-01 12:00''), CHAT_ID = str ''42''\<rparr>"

definition timeout :: http_outcome where
  "timeout = AxiosError (str ''timeout of 10000ms exceeded'') None"

definition telegramDown :: thrown where
  "telegramDown = JsError (str ''ETELEGRAM: 502 Bad Gateway'')"

definition idle :: "ParseResult option \<Rightarrow> world" where
  "idle previous = \<lparr>previousStatus = previous, isChecking = False, events = []\<rparr>"

definition busy :: world where
  "busy = \<lparr>previousStatus = Some closed, isChecking = True, events = [Get]\<rparr>"

text \<open>
  The site as the examples see it: always on sale, always timing out, timing out once,
  and always with the page that has lost the button of Real Madrid.
\<close>

definition siteOnSale :: "nat \<Rightarrow> http_outcome" where
  "siteOnSale n = Loaded pageOnSale"

definition siteDown :: "nat \<Rightarrow> http_outcome" where
  "siteDown n = timeout"

definition siteRecovers :: "nat \<Rightarrow> http_outcome" where
  "siteRecovers n = (if n = 0 then timeout else Loaded pageOnSale)"

definition siteNoButton :: "nat \<Rightarrow> http_outcome" where
  "siteNoButton n = Loaded pageRealMadridNoButton"

section \<open>Lemmas on the parts of a cycle\<close>

lemma sends_append: "sends (xs @ ys) = sends xs @ sends ys"
  by (induction xs rule: sends.induct) simp_all

lemma parseButtonsWithRetry_unfold:
  "parseButtonsWithRetry E w =
     (case parsePage (new_URL E) (axios_get E (length (events w))) of
        Inr result \<Rightarrow> (Inr result, w\<lparr>events := events w @ [Get]\<rparr>)
      | Inl error \<Rightarrow>
          (parsePage (new_URL E) (axios_get E (length (events w) + 2)),
           w\<lparr>events := events w @ [Get, Sleep 2000, Get]\<rparr>))"
  by (simp add: parseButtonsWithRetry_def parseButtons_def emit_def split: sum.splits)

lemma retry_frame:
  "previousStatus (snd (parseButtonsWithRetry E w)) = previousStatus w"
  "isChecking (snd (parseButtonsWithRetry E w)) = isChecking w"
  "sends (events (snd (parseButtonsWithRetry E w))) = sends (events w)"
  by (simp_all add: parseButtonsWithRetry_unfold sends_append split: sum.splits)

lemma sendNotification_fst:
  "fst (sendNotification E chatId message w) =
     (case bot_sendMessage E (length (events w)) chatId message of
        None \<Rightarrow> Inr () | Some error \<Rightarrow> Inl error)"
  by (simp add: sendNotification_def split: option.splits)

lemma sendNotification_snd:
  "snd (sendNotification E chatId message w) = w\<lparr>events := events w @ [Send chatId message]\<rparr>"
  by (simp add: sendNotification_def emit_def split: option.splits)

lemma notifyChanges_frame:
  "previousStatus (snd (notifyChanges E previous result w)) = previousStatus w"
  "isChecking (snd (notifyChanges E previous result w)) = isChecking w"
  by (simp_all add: notifyChanges_def sendStatusChange_def sendNotification_def emit_def
        split: option.splits)

lemma notifyChanges_sends:
  "sends (events (snd (notifyChanges E previous result w))) =
     sends (events w) @
     (case previous of
        None \<Rightarrow> []
      | Some prev \<Rightarrow>
          (if \<not> isEnabled (aktobe prev) \<and> isEnabled (aktobe result)
           then [(CHAT_ID E, StatusChange TITLE_AKTOBE (href (aktobe result)))] else []) @
          (if \<not> isEnabled (realMadrid prev) \<and> isEnabled (realMadrid result) \<and>
              (\<not> isEnabled (aktobe prev) \<and> isEnabled (aktobe result) \<longrightarrow>
                 bot_sendMessage E (length (events w)) (CHAT_ID E)
                   (StatusChange TITLE_AKTOBE (href (aktobe result))) = None)
           then [(CHAT_ID E, StatusChange TITLE_REAL_MADRID (href (realMadrid result)))]
           else []))"
  by (simp add: notifyChanges_def sendStatusChange_def sendNotification_def emit_def sends_append
        split: option.splits)

lemma checkBody_fetched:
  assumes "parseButtonsWithRetry E w = (Inr result, w1)"
  shows "fst (checkBody E w) = fst (notifyChanges E (previousStatus w) result w1)"
    and "sends (events (snd (checkBody E w))) =
           sends (events (snd (notifyChanges E (previousStatus w) result w1)))"
    and "isChecking (snd (checkBody E w)) = isChecking w"
    and "previousStatus (snd (checkBody E w)) =
           (case fst (checkBody E w) of Inl e \<Rightarrow> previousStatus w | Inr u \<Rightarrow> Some result)"
proof -
  have p: "previousStatus w1 = previousStatus w" and c: "isChecking w1 = isChecking w"
    using retry_frame(1,2) [of E w] assms by simp_all
  obtain r w2 where n: "notifyChanges E (previousStatus w) result w1 = (r, w2)"
    by (cases "notifyChanges E (previousStatus w) result w1")
  have f: "previousStatus w2 = previousStatus w" "isChecking w2 = isChecking w"
    using notifyChanges_frame [of E "previousStatus w" result w1] n p c by simp_all
  have b: "checkBody E w = (case r of Inl e \<Rightarrow> (Inl e, w2)
             | Inr u \<Rightarrow> (Inr (), w2\<lparr>previousStatus := Some result\<rparr>))"
    using assms n p by (simp add: checkBody_def split: sum.splits)
  show "fst (checkBody E w) = fst (notifyChanges E (previousStatus w) result w1)"
    using b n by (simp split: sum.splits)
  show "sends (events (snd (checkBody E w))) =
           sends (events (snd (notifyChanges E (previousStatus w) result w1)))"
    using b n by (simp split: sum.splits)
  show "isChecking (snd (checkBody E w)) = isChecking w"
    using b f by (simp split: sum.splits)
  show "previousStatus (snd (checkBody E w)) =
           (case fst (checkBody E w) of Inl e \<Rightarrow> previousStatus w | Inr u \<Rightarrow> Some result)"
    using b f by (simp split: sum.splits)
qed

lemma checkBody_failed:
  assumes "parseButtonsWithRetry E w = (Inl error, w1)"
  shows "checkBody E w = (Inl error, w1)"
  using assms by (simp add: checkBody_def)

lemma checkBody_done_fetched:
  assumes "fst (checkBody E w) = Inr ()"
  shows "\<exists>result. fst (parseButtonsWithRetry E w) = Inr result"
proof (cases "parseButtonsWithRetry E w")
  case (Pair r w1)
  show ?thesis
  proof (cases r)
    case (Inl error)
    with Pair assms checkBody_failed [of E w error w1] show ?thesis by simp
  next
    case (Inr result)
    with Pair show ?thesis by simp
  qed
qed

lemma checkAndNotify_run:
  assumes "\<not> isChecking w" and "checkBody E (w\<lparr>isChecking := True\<rparr>) = (r, w1)"
  shows "checkAndNotify E w =
     (case r of
        Inr u \<Rightarrow> (Inr u, w1\<lparr>isChecking := False\<rparr>)
      | Inl error \<Rightarrow>
          (fst (sendError E (CHAT_ID E) (errorText error) w1),
           (snd (sendError E (CHAT_ID E) (errorText error) w1))\<lparr>isChecking := False\<rparr>))"
  using assms by (simp add: checkAndNotify_def split: sum.splits prod.splits)

lemma failed_fetch_keeps_previous:
  assumes "\<not> isChecking w"
    and "fst (parseButtonsWithRetry E (w\<lparr>isChecking := True\<rparr>)) = Inl error"
  shows "previousStatus (snd (checkAndNotify E w)) = previousStatus w"
proof -
  let ?w = "w\<lparr>isChecking := True\<rparr>"
  obtain w0 where p: "parseButtonsWithRetry E ?w = (Inl error, w0)"
    using assms(2) by (cases "parseButtonsWithRetry E ?w") simp
  have "previousStatus w0 = previousStatus w"
    using retry_frame(1) [of E ?w] p by simp
  then show ?thesis
    using checkAndNotify_run [OF assms(1) checkBody_failed [OF p]]
    by (simp add: sendError_def sendNotification_snd)
qed

lemma parsePage_null:
  assumes "findMatchByOpponent url blocks AKTOBE = Inr None \<or>
           findMatchByOpponent url blocks REAL_MADRID = Inr None"
  shows "parsePage url (Loaded blocks) \<noteq> Inr result"
  using assms by (auto simp add: parsePage_def split: sum.splits option.splits)

lemma matchNotFound_distinct: "matchNotFound AKTOBE \<noteq> matchNotFound REAL_MADRID"
  by (simp add: matchNotFound_def AKTOBE_def REAL_MADRID_def)

lemma scan_without_button:
  "(\<forall>b \<in> set blocks. foundOpponent (teamNames b) name \<longrightarrow> buttons b = []) \<Longrightarrow>
     findMatchByOpponent url blocks name = Inr None"
  by (induction blocks) simp_all

section \<open>Lemmas on tasks\<close>

lemma run_andThen:
  "run E others (andThen t f) w =
     run E others (f (fst (run E others t w))) (snd (run E others t w))"
  by (induction t arbitrary: w) simp_all

lemma suspensions_andThen:
  "suspensions E others (andThen t f) w =
     suspensions E others t w @
     suspensions E others (f (fst (run E others t w))) (snd (run E others t w))"
  by (induction t arbitrary: w) simp_all

lemma keepsGuard_andThen:
  "keepsGuard t \<Longrightarrow> (\<And>r. keepsGuard (f r)) \<Longrightarrow> keepsGuard (andThen t f)"
  by (induction t) simp_all

lemma keepsGuard_run:
  assumes "\<And>v. isChecking (others v) = isChecking v"
  shows "keepsGuard t \<Longrightarrow>
     isChecking (snd (run E others t w)) = isChecking w \<and>
     (\<forall>w' \<in> set (suspensions E others t w). isChecking w' = isChecking w)"
proof (induction t arbitrary: w)
  case (AwaitGet k)
  have g: "isChecking (others (emit Get w)) = isChecking w"
    by (simp add: assms emit_def)
  show ?case
    using AwaitGet.IH [of "k (axios_get E (length (events w)))" "others (emit Get w)"]
      AwaitGet.prems g
    by (simp add: emit_def)
next
  case (AwaitSleep ms t)
  have g: "isChecking (others (emit (Sleep ms) w)) = isChecking w"
    by (simp add: assms emit_def)
  show ?case
    using AwaitSleep.IH [of "others (emit (Sleep ms) w)"] AwaitSleep.prems g
    by (simp add: emit_def)
next
  case (AwaitSend chatId message k)
  have g: "isChecking (others (emit (Send chatId message) w)) = isChecking w"
    by (simp add: assms emit_def)
  show ?case
    using AwaitSend.IH [of "k (bot_sendMessage E (length (events w)) chatId message)"
        "others (emit (Send chatId message) w)"]
      AwaitSend.prems g
    by (simp add: emit_def)
next
  case (Read f)
  show ?case
    using Read.IH [of "f w" w] Read.prems by simp
next
  case (Write g t)
  show ?case
    using Write.IH [of "g w"] Write.prems by simp
qed simp

lemma run_parseButtons: "run E id (parseButtons_task E) w = parseButtons E w"
  by (simp add: parseButtons_task_def parseButtons_def)

lemma run_parseButtonsWithRetry:
  "run E id (parseButtonsWithRetry_task E) w = parseButtonsWithRetry E w"
  by (simp add: parseButtonsWithRetry_task_def parseButtonsWithRetry_def run_andThen
        run_parseButtons split: prod.splits sum.splits)

lemma run_sendNotification:
  "run E id (sendNotification_task chatId message) w = sendNotification E chatId message w"
  by (simp add: sendNotification_task_def sendNotification_def split: option.splits)

lemma run_notifyChanges:
  "run E id (notifyChanges_task E previous result) w = notifyChanges E previous result w"
  by (simp add: notifyChanges_task_def notifyChanges_def sendStatusChange_task_def
        sendStatusChange_def run_andThen run_sendNotification
      split: option.splits prod.splits sum.splits)

lemma run_checkBody: "run E id (checkBody_task E) w = checkBody E w"
  by (simp add: checkBody_task_def checkBody_def run_andThen run_parseButtonsWithRetry
        run_notifyChanges split: prod.splits sum.splits)

lemma run_sendError:
  "run E id (sendError_task E chatId text) w = sendError E chatId text w"
  by (simp add: sendError_task_def sendError_def run_sendNotification)

lemma run_checkAndNotify: "run E id (checkAndNotify_task E) w = checkAndNotify E w"
  by (simp add: checkAndNotify_task_def checkAndNotify_def run_andThen run_checkBody
        run_sendError split: prod.splits sum.splits)

lemma keepsGuard_sendNotification: "keepsGuard (sendNotification_task chatId message)"
  by (simp add: sendNotification_task_def split: option.splits)

lemma keepsGuard_parseButtonsWithRetry: "keepsGuard (parseButtonsWithRetry_task E)"
  unfolding parseButtonsWithRetry_task_def
  by (rule keepsGuard_andThen) (simp_all add: parseButtons_task_def split: sum.splits)

lemma keepsGuard_notifyChanges: "keepsGuard (notifyChanges_task E previous result)"
proof (cases previous)
  case None
  then show ?thesis by (simp add: notifyChanges_task_def)
next
  case (Some prev)
  show ?thesis
    unfolding notifyChanges_task_def Some option.case
    by (rule keepsGuard_andThen)
       (simp_all add: sendStatusChange_task_def keepsGuard_sendNotification split: sum.splits)
qed

lemma keepsGuard_checkBody: "keepsGuard (checkBody_task E)"
  unfolding checkBody_task_def
proof (rule keepsGuard_andThen)
  show "keepsGuard (parseButtonsWithRetry_task E)"
    by (rule keepsGuard_parseButtonsWithRetry)
  fix r :: "thrown + ParseResult"
  show "keepsGuard
          (case r of
             Inl error \<Rightarrow> Done (Inl error)
           | Inr result \<Rightarrow>
               Read (\<lambda>w.
                 andThen (notifyChanges_task E (previousStatus w) result)
                   (\<lambda>r. case r of
                          Inl error \<Rightarrow> Done (Inl error)
                        | Inr _ \<Rightarrow>
                            Write (\<lambda>w. w\<lparr>previousStatus := Some result\<rparr>) (Done (Inr ())))))"
  proof (cases r)
    case (Inl error)
    then show ?thesis by simp
  next
    case (Inr result)
    have "keepsGuard
            (andThen (notifyChanges_task E p result)
               (\<lambda>r. case r of
                      Inl error \<Rightarrow> Done (Inl error)
                    | Inr _ \<Rightarrow>
                        Write (\<lambda>w. w\<lparr>previousStatus := Some result\<rparr>) (Done (Inr ()))))" for p
      by (rule keepsGuard_andThen) (simp_all add: keepsGuard_notifyChanges split: sum.splits)
    then show ?thesis using Inr by simp
  qed
qed

lemma keepsGuard_tryCatch:
  "keepsGuard
     (andThen (checkBody_task E)
        (\<lambda>r. case r of
               Inr _ \<Rightarrow> Done (Inr ())
             | Inl error \<Rightarrow> sendError_task E (CHAT_ID E) (errorText error)))"
  by (rule keepsGuard_andThen)
     (simp_all add: keepsGuard_checkBody sendError_task_def keepsGuard_sendNotification
        split: sum.splits)

lemma suspensions_checkBody: "suspensions E others (checkBody_task E) w \<noteq> []"
  by (simp add: checkBody_task_def parseButtonsWithRetry_task_def parseButtons_task_def)

lemma retrigger_keeps_guard: "isChecking (retrigger E v) = isChecking v"
  by (simp add: retrigger_def checkAndNotify_def split: prod.splits sum.splits)

lemma retrigger_busy: "isChecking v \<Longrightarrow> retrigger E v = v"
  by (simp add: retrigger_def checkAndNotify_def)

lemma handlers_keep_guard:
  "isChecking (snd (onStatus E msgChatId v)) = isChecking v"
  "isChecking (snd (onHelp E msgChatId v)) = isChecking v"
  "isChecking (snd (operationalJob E v)) = isChecking v"
proof -
  obtain r v1 where p: "parseButtonsWithRetry E v = (r, v1)"
    by (cases "parseButtonsWithRetry E v")
  have g: "isChecking v1 = isChecking v"
    using retry_frame(2) [of E v] p by simp
  show "isChecking (snd (onStatus E msgChatId v)) = isChecking v"
    using p g
    by (simp add: onStatus_def sendManualStatus_def sendError_def sendNotification_def
          emit_def Let_def split: sum.splits option.splits)
  show "isChecking (snd (onHelp E msgChatId v)) = isChecking v"
    by (simp add: onHelp_def emit_def Let_def)
  show "isChecking (snd (operationalJob E v)) = isChecking v"
    by (simp add: operationalJob_def sendOperational_def sendNotification_snd)
qed

section \<open>The examples, evaluated\<close>

lemma scan_onSale:
  "findMatchByOpponent exampleURL pageOnSale AKTOBE = Inr (Some (aktobe onSale))"
  "findMatchByOpponent exampleURL pageOnSale REAL_MADRID = Inr (Some (realMadrid onSale))"
  by (simp_all add: pageOnSale_def aktobeBlock_def realMadridBlock_def openButton_def onSale_def
        exampleURL_def buttonClasses_def hasClass_def attrHref_def trim_def isWhiteSpace_def
        AKTOBE_def REAL_MADRID_def BASE_URL_def str_def)

lemma parse_onSale: "parsePage exampleURL (Loaded pageOnSale) = Inr onSale"
  by (simp add: parsePage_def scan_onSale) (simp add: pageOnSale_def onSale_def)

lemma scan_closed:
  "findMatchByOpponent exampleURL pageClosed AKTOBE = Inr (Some (aktobe closed))"
  "findMatchByOpponent exampleURL pageClosed REAL_MADRID = Inr (Some (realMadrid closed))"
  by (simp_all add: pageClosed_def aktobeBlock_def realMadridBlock_def disabledButton_def
        closed_def exampleURL_def buttonClasses_def hasClass_def attrHref_def trim_def
        isWhiteSpace_def AKTOBE_def REAL_MADRID_def BASE_URL_def str_def)

lemma parse_timeout:
  "parsePage url timeout = Inl (JsError (str ''HTTP error: timeout of 10000ms exceeded''))"
  by (simp add: parsePage_def timeout_def httpError_def str_def)

lemma retry_onSale:
  "parseButtonsWithRetry (exampleEnv siteOnSale send) (idle previous\<lparr>isChecking := c\<rparr>) =
     (Inr onSale, \<lparr>previousStatus = previous, isChecking = c, events = [Get]\<rparr>)"
  by (simp add: parseButtonsWithRetry_unfold exampleEnv_def siteOnSale_def idle_def parse_onSale)

lemma retry_down:
  "parseButtonsWithRetry (exampleEnv siteDown send) (idle previous\<lparr>isChecking := c\<rparr>) =
     (Inl (JsError (str ''HTTP error: timeout of 10000ms exceeded'')),
      \<lparr>previousStatus = previous, isChecking = c, events = [Get, Sleep 2000, Get]\<rparr>)"
  by (simp add: parseButtonsWithRetry_unfold exampleEnv_def siteDown_def idle_def parse_timeout)

lemma found_examples:
  "foundOpponent (teamNames (aktobeBlock bs)) AKTOBE"
  "\<not> foundOpponent (teamNames (aktobeBlock bs)) REAL_MADRID"
  "foundOpponent (teamNames (realMadridBlock bs)) REAL_MADRID"
  "\<not> foundOpponent (teamNames (realMadridBlock bs)) AKTOBE"
  by (simp_all add: aktobeBlock_def realMadridBlock_def trim_def isWhiteSpace_def
        AKTOBE_def REAL_MADRID_def str_def)

lemma buttons_examples:
  "buttons (aktobeBlock bs) = bs" "buttons (realMadridBlock bs) = bs"
  by (simp_all add: aktobeBlock_def realMadridBlock_def)

lemma scan_partial:
  "findMatchByOpponent exampleURL pageNoButton AKTOBE = Inr None"
  "findMatchByOpponent exampleURL pageNoButton REAL_MADRID = Inr None"
  "findMatchByOpponent exampleURL pageAktobeOnly AKTOBE = Inr (Some (aktobe onSale))"
  "findMatchByOpponent exampleURL pageAktobeOnly REAL_MADRID = Inr None"
  "findMatchByOpponent exampleURL pageAktobeNoButton AKTOBE = Inr None"
  "findMatchByOpponent exampleURL pageAktobeNoButton REAL_MADRID = Inr (Some (realMadrid onSale))"
  "findMatchByOpponent exampleURL pageRealMadridNoButton AKTOBE = Inr (Some (aktobe onSale))"
  "findMatchByOpponent exampleURL pageRealMadridNoButton REAL_MADRID = Inr None"
  by (simp_all add: pageNoButton_def pageAktobeOnly_def pageAktobeNoButton_def
        pageRealMadridNoButton_def found_examples buttons_examples onSale_def openButton_def
        exampleURL_def buttonClasses_def hasClass_def attrHref_def BASE_URL_def str_def)

lemma scan_broken:
  "findMatchByOpponent exampleURL pageBrokenLink AKTOBE = Inr None"
  "findMatchByOpponent exampleURL pageBrokenLink REAL_MADRID = Inl (JsError (str ''Invalid URL''))"
  by (simp_all add: pageBrokenLink_def found_examples buttons_examples brokenButton_def
        exampleURL_def buttonClasses_def hasClass_def attrHref_def BASE_URL_def str_def)

section \<open>The retry wrapper\<close>

text \<open>
  Claim C4. \<open>parseButtonsWithRetry\<close> attempts the fetch once. When that attempt gives a
  result, the result is returned and the trace grows by the one GET. When it throws,
  whatever it throws, the wrapper waits 2000 ms and attempts exactly once more: the
  trace grows by a GET, the wait and a GET, and the outcome of the wrapper is the
  outcome of the second attempt as it is, so that a second failure reaches the caller
  unmodified.
\<close>

theorem parseButtonsWithRetry_one_retry:
  "(parsePage (new_URL E) (axios_get E (length (events w))) = Inr result \<longrightarrow>
      parseButtonsWithRetry E w = (Inr result, w\<lparr>events := events w @ [Get]\<rparr>)) \<and>
   (parsePage (new_URL E) (axios_get E (length (events w))) = Inl error \<longrightarrow>
      parseButtonsWithRetry E w =
        (parsePage (new_URL E) (axios_get E (length (events w) + 2)),
         w\<lparr>events := events w @ [Get, Sleep 2000, Get]\<rparr>))"
  by (simp add: parseButtonsWithRetry_unfold)

text \<open>
  On a site that answers, one GET; on a site that times out once, the result of the
  second GET; on a site that is down, the second timeout.
\<close>

theorem parseButtonsWithRetry_one_retry_witness:
  "parsePage exampleURL (siteOnSale 0) = Inr onSale \<and>
   parseButtonsWithRetry (exampleEnv siteOnSale None) (idle None) =
     (Inr onSale, idle None\<lparr>events := [Get]\<rparr>) \<and>
   parsePage exampleURL (siteRecovers 0) =
     Inl (JsError (str ''HTTP error: timeout of 10000ms exceeded'')) \<and>
   parseButtonsWithRetry (exampleEnv siteRecovers None) (idle None) =
     (Inr onSale, idle None\<lparr>events := [Get, Sleep 2000, Get]\<rparr>) \<and>
   parseButtonsWithRetry (exampleEnv siteDown None) (idle None) =
     (Inl (JsError (str ''HTTP error: timeout of 10000ms exceeded'')),
      idle None\<lparr>events := [Get, Sleep 2000, Get]\<rparr>)"
  using parseButtonsWithRetry_one_retry
          [of "exampleEnv siteOnSale None" "idle None" onSale]
        parseButtonsWithRetry_one_retry
          [of "exampleEnv siteRecovers None" "idle None" _
              "JsError (str ''HTTP error: timeout of 10000ms exceeded'')"]
        parseButtonsWithRetry_one_retry
          [of "exampleEnv siteDown None" "idle None" _
              "JsError (str ''HTTP error: timeout of 10000ms exceeded'')"]
  by (simp add: exampleEnv_def idle_def siteOnSale_def siteRecovers_def siteDown_def
        parse_onSale parse_timeout)

section \<open>The parser on a page\<close>

text \<open>
  Claim C7. A page with no match block makes the fetch fail, whatever the URL parser
  is, and no result is produced. The error is the one of the test on the number of
  blocks, which stands before the lookups: it is neither of the errors that follow them.
\<close>

theorem zero_blocks_fail:
  "parsePage url (Loaded []) = Inl (JsError noMatchBlocks) \<and>
   noMatchBlocks \<noteq> matchNotFound AKTOBE \<and> noMatchBlocks \<noteq> matchNotFound REAL_MADRID"
  by (simp add: parsePage_def noMatchBlocks_def matchNotFound_def str_def)

section \<open>The cycle\<close>

text \<open>
  Claim C2. An invocation of \<open>checkAndNotify\<close> that finds the guard set returns at
  once: it awaits nothing and the world is the one it found, so no GET, no message and
  no change of the state. An invocation that finds the guard clear sets it before its
  first await: it is suspended at least once, in each world in which it is suspended
  the guard is set, so that an invocation arriving there is one of the first kind, and
  when it returns the guard is clear, whether its outcome is a result or a rejection.
  This holds whatever the other handlers do while the cycle is suspended, as long as
  they leave the guard as they find it, which the handlers of the process do; with no
  other handler the cycle with its awaits is \<open>checkAndNotify\<close> as one step.
\<close>

theorem checkAndNotify_guard:
  assumes "\<And>v. isChecking (others v) = isChecking v"
  shows
  "(isChecking w \<longrightarrow>
      checkAndNotify E w = (Inr (), w) \<and>
      run E others (checkAndNotify_task E) w = (Inr (), w) \<and>
      suspensions E others (checkAndNotify_task E) w = []) \<and>
   (\<not> isChecking w \<longrightarrow>
      suspensions E others (checkAndNotify_task E) w \<noteq> [] \<and>
      (\<forall>w' \<in> set (suspensions E others (checkAndNotify_task E) w).
         isChecking w' \<and> checkAndNotify E w' = (Inr (), w')) \<and>
      \<not> isChecking (snd (run E others (checkAndNotify_task E) w)) \<and>
      \<not> isChecking (snd (checkAndNotify E w))) \<and>
   run E id (checkAndNotify_task E) w = checkAndNotify E w"
proof (intro conjI impI)
  let ?body = "andThen (checkBody_task E)
        (\<lambda>r. case r of
               Inr _ \<Rightarrow> Done (Inr ())
             | Inl error \<Rightarrow> sendError_task E (CHAT_ID E) (errorText error))"
  let ?w = "w\<lparr>isChecking := True\<rparr>"
  show "run E id (checkAndNotify_task E) w = checkAndNotify E w"
    by (rule run_checkAndNotify)
  {
    assume "isChecking w"
    then show "checkAndNotify E w = (Inr (), w)"
      "run E others (checkAndNotify_task E) w = (Inr (), w)"
      "suspensions E others (checkAndNotify_task E) w = []"
      by (simp_all add: checkAndNotify_def checkAndNotify_task_def)
  }
  assume idle: "\<not> isChecking w"
  have s: "suspensions E others (checkAndNotify_task E) w = suspensions E others ?body ?w"
    using idle by (simp add: checkAndNotify_task_def suspensions_andThen)
  have r: "snd (run E others (checkAndNotify_task E) w) =
             (snd (run E others ?body ?w))\<lparr>isChecking := False\<rparr>"
    using idle by (simp add: checkAndNotify_task_def run_andThen)
  note k = keepsGuard_run [OF assms keepsGuard_tryCatch, of E E ?w]
  show "suspensions E others (checkAndNotify_task E) w \<noteq> []"
    unfolding s by (simp add: suspensions_andThen suspensions_checkBody)
  show "\<forall>w' \<in> set (suspensions E others (checkAndNotify_task E) w).
          isChecking w' \<and> checkAndNotify E w' = (Inr (), w')"
    unfolding s using k by (simp add: checkAndNotify_def)
  show "\<not> isChecking (snd (run E others (checkAndNotify_task E) w))"
    unfolding r by simp
  show "\<not> isChecking (snd (checkAndNotify E w))"
    using idle by (simp add: checkAndNotify_def split: prod.splits sum.splits)
qed

text \<open>
  The schedule fires again during every await of a cycle. A busy world is left as it
  is. From an idle world with nothing on sale and a site with both on sale, the cycle is
  suspended three times, each time with the guard set, each second firing is dropped,
  and the guard is clear in the end; so it is when the site and the transport are down.
\<close>

theorem checkAndNotify_guard_witness:
  "isChecking busy \<and>
   checkAndNotify (exampleEnv siteOnSale None) busy = (Inr (), busy) \<and>
   suspensions (exampleEnv siteOnSale None) (retrigger (exampleEnv siteOnSale None))
     (checkAndNotify_task (exampleEnv siteOnSale None)) busy = [] \<and>
   \<not> isChecking (idle (Some closed)) \<and>
   suspensions (exampleEnv siteOnSale None) (retrigger (exampleEnv siteOnSale None))
     (checkAndNotify_task (exampleEnv siteOnSale None)) (idle (Some closed)) =
     [\<lparr>previousStatus = Some closed, isChecking = True, events = [Get]\<rparr>,
      \<lparr>previousStatus = Some closed, isChecking = True,
        events = [Get, Send (str ''42'')
                    (StatusChange TITLE_AKTOBE (str ''https://fckairat.com/tickets/1''))]\<rparr>,
      \<lparr>previousStatus = Some closed, isChecking = True,
        events = [Get,
                  Send (str ''42'')
                    (StatusChange TITLE_AKTOBE (str ''https://fckairat.com/tickets/1'')),
                  Send (str ''42'')
                    (StatusChange TITLE_REAL_MADRID (str ''https://fckairat.com/tickets/1''))]\<rparr>] \<and>
   checkAndNotify (exampleEnv siteOnSale None)
     \<lparr>previousStatus = Some closed, isChecking = True, events = [Get]\<rparr> =
     (Inr (), \<lparr>previousStatus = Some closed, isChecking = True, events = [Get]\<rparr>) \<and>
   \<not> isChecking
       (snd (run (exampleEnv siteOnSale None) (retrigger (exampleEnv siteOnSale None))
               (checkAndNotify_task (exampleEnv siteOnSale None)) (idle (Some closed)))) \<and>
   fst (checkAndNotify (exampleEnv siteDown (Some telegramDown)) (idle (Some closed))) =
     Inl telegramDown \<and>
   \<not> isChecking (snd (checkAndNotify (exampleEnv siteDown (Some telegramDown)) (idle (Some closed))))"
proof -
  let ?E = "exampleEnv siteOnSale None"
  let ?D = "exampleEnv siteDown (Some telegramDown)"
  have b: "isChecking busy" and i: "\<not> isChecking (idle (Some closed))"
    by (simp_all add: busy_def idle_def)
  have e: "new_URL ?E = exampleURL" "axios_get ?E n = Loaded pageOnSale"
    "bot_sendMessage ?E n c m = None" "CHAT_ID ?E = str ''42''" for n c m
    by (simp_all add: exampleEnv_def siteOnSale_def)
  have s: "suspensions ?E (retrigger ?E) (checkAndNotify_task ?E) (idle (Some closed)) =
     [\<lparr>previousStatus = Some closed, isChecking = True, events = [Get]\<rparr>,
      \<lparr>previousStatus = Some closed, isChecking = True,
        events = [Get, Send (str ''42'')
                    (StatusChange TITLE_AKTOBE (str ''https://fckairat.com/tickets/1''))]\<rparr>,
      \<lparr>previousStatus = Some closed, isChecking = True,
        events = [Get,
                  Send (str ''42'')
                    (StatusChange TITLE_AKTOBE (str ''https://fckairat.com/tickets/1'')),
                  Send (str ''42'')
                    (StatusChange TITLE_REAL_MADRID (str ''https://fckairat.com/tickets/1''))]\<rparr>]"
    by (simp add: checkAndNotify_task_def checkBody_task_def parseButtonsWithRetry_task_def
          parseButtons_task_def notifyChanges_task_def sendStatusChange_task_def
          sendNotification_task_def suspensions_andThen run_andThen emit_def idle_def
          retrigger_busy e parse_onSale closed_def onSale_def)
  have down: "fst (checkAndNotify ?D (idle (Some closed))) = Inl telegramDown"
    using retry_down [where send = "Some telegramDown" and previous = "Some closed" and c = True]
    by (simp add: checkAndNotify_def checkBody_def sendError_def sendNotification_def
          idle_def exampleEnv_def)
  note g = checkAndNotify_guard [of "retrigger ?E", OF retrigger_keeps_guard]
  show ?thesis
    using g [of busy ?E] g [of "idle (Some closed)" ?E]
      checkAndNotify_guard [of "retrigger ?D" "idle (Some closed)" ?D, OF retrigger_keeps_guard]
      b i s down
    by simp
qed

section \<open>The commands\<close>

text \<open>
  Claim C9. A \<open>/status\<close> command from a chat whose id, as \<open>toString\<close> renders it,
  differs from \<open>CHAT_ID\<close> is ignored: the handler returns with the world as it found
  it, so it made no GET and sent no message. The handler of \<open>/help\<close> does the same.
\<close>

theorem unauthorized_ignored:
  "toString msgChatId \<noteq> CHAT_ID E \<Longrightarrow>
     onStatus E msgChatId w = (Inr (), w) \<and> onHelp E msgChatId w = (Inr (), w)"
  by (simp add: onStatus_def onHelp_def)

text \<open>Chat 7 asks an instance whose recipient is chat 42.\<close>

theorem unauthorized_ignored_witness:
  "toString 7 \<noteq> CHAT_ID (exampleEnv siteOnSale None) \<and>
   onStatus (exampleEnv siteOnSale None) 7 (idle None) = (Inr (), idle None) \<and>
   onHelp (exampleEnv siteOnSale None) 7 (idle None) = (Inr (), idle None)"
proof -
  have h: "toString 7 \<noteq> CHAT_ID (exampleEnv siteOnSale None)"
    by (simp add: toString_def showNat.simps exampleEnv_def str_def)
  show ?thesis
    using h unauthorized_ignored [OF h, of "idle None"] by simp
qed

section \<open>What a cycle stores and sends\<close>

text \<open>
  Claim C8. A cycle that starts with no previous status and whose fetch gives a result
  returns normally, hands no message to the transport, and leaves that result as the
  previous status. More generally, whenever the \<open>try\<close> block of a cycle completes
  without an error, the fetch has given a result, the cycle returns normally and that
  result is the previous status when it returns.
\<close>

theorem baseline_stored:
  assumes "\<not> isChecking w"
  shows "(previousStatus w = None \<and>
            fst (parseButtonsWithRetry E (w\<lparr>isChecking := True\<rparr>)) = Inr result \<longrightarrow>
          fst (checkAndNotify E w) = Inr () \<and>
          sends (events (snd (checkAndNotify E w))) = sends (events w) \<and>
          previousStatus (snd (checkAndNotify E w)) = Some result) \<and>
         (fst (checkBody E (w\<lparr>isChecking := True\<rparr>)) = Inr () \<longrightarrow>
          (\<exists>current. fst (parseButtonsWithRetry E (w\<lparr>isChecking := True\<rparr>)) = Inr current \<and>
             fst (checkAndNotify E w) = Inr () \<and>
             previousStatus (snd (checkAndNotify E w)) = Some current))"
proof (intro conjI impI)
  let ?w = "w\<lparr>isChecking := True\<rparr>"
  obtain r w1 where b: "checkBody E ?w = (r, w1)" by (cases "checkBody E ?w")
  note run = checkAndNotify_run [OF assms b]
  {
    assume a: "previousStatus w = None \<and> fst (parseButtonsWithRetry E ?w) = Inr result"
    obtain w0 where p: "parseButtonsWithRetry E ?w = (Inr result, w0)"
      using a by (cases "parseButtonsWithRetry E ?w") simp
    have n: "notifyChanges E (previousStatus ?w) result w0 = (Inr (), w0)"
      using a by (simp add: notifyChanges_def)
    have r: "r = Inr ()"
      using checkBody_fetched(1) [OF p] b n by simp
    have s: "sends (events w1) = sends (events w)"
      using checkBody_fetched(2) [OF p] b n retry_frame(3) [of E ?w] p by simp
    have q: "previousStatus w1 = Some result"
      using checkBody_fetched(4) [OF p] b r by simp
    show "fst (checkAndNotify E w) = Inr ()" using run r by simp
    show "sends (events (snd (checkAndNotify E w))) = sends (events w)" using run r s by simp
    show "previousStatus (snd (checkAndNotify E w)) = Some result" using run r q by simp
  }
  assume ok: "fst (checkBody E ?w) = Inr ()"
  then have r: "r = Inr ()" using b by simp
  obtain current where c: "fst (parseButtonsWithRetry E ?w) = Inr current"
    using checkBody_done_fetched [OF ok] by blast
  then obtain w0 where p: "parseButtonsWithRetry E ?w = (Inr current, w0)"
    by (cases "parseButtonsWithRetry E ?w") simp
  have q: "previousStatus w1 = Some current"
    using checkBody_fetched(4) [OF p] b r by simp
  show "\<exists>current. fst (parseButtonsWithRetry E ?w) = Inr current \<and>
          fst (checkAndNotify E w) = Inr () \<and>
          previousStatus (snd (checkAndNotify E w)) = Some current"
    using c run r q by simp
qed

text \<open>
  The first cycle of a process, with tickets on sale: nothing is sent and the result is
  stored. A later cycle, from a previous status with nothing on sale: the result is
  stored too.
\<close>

theorem baseline_stored_witness:
  "\<not> isChecking (idle None) \<and> previousStatus (idle None) = None \<and>
   fst (parseButtonsWithRetry (exampleEnv siteOnSale None) (idle None\<lparr>isChecking := True\<rparr>)) =
     Inr onSale \<and>
   fst (checkAndNotify (exampleEnv siteOnSale None) (idle None)) = Inr () \<and>
   sends (events (snd (checkAndNotify (exampleEnv siteOnSale None) (idle None)))) = [] \<and>
   previousStatus (snd (checkAndNotify (exampleEnv siteOnSale None) (idle None))) = Some onSale \<and>
   \<not> isChecking (idle (Some closed)) \<and>
   fst (checkBody (exampleEnv siteOnSale None) (idle (Some closed)\<lparr>isChecking := True\<rparr>)) = Inr () \<and>
   previousStatus (snd (checkAndNotify (exampleEnv siteOnSale None) (idle (Some closed)))) =
     Some onSale"
proof -
  let ?E = "exampleEnv siteOnSale None"
  have i: "\<not> isChecking (idle None)" "\<not> isChecking (idle (Some closed))"
    by (simp_all add: idle_def)
  have n: "previousStatus (idle None) = None" "sends (events (idle None)) = []"
    by (simp_all add: idle_def)
  have f: "fst (parseButtonsWithRetry ?E (idle previous\<lparr>isChecking := True\<rparr>)) = Inr onSale"
    for previous
    using retry_onSale [where send = None and previous = previous and c = True] by simp
  have b: "fst (checkBody ?E (idle (Some closed)\<lparr>isChecking := True\<rparr>)) = Inr ()"
    using retry_onSale [where send = None and previous = "Some closed" and c = True]
    by (simp add: checkBody_def notifyChanges_def sendStatusChange_def sendNotification_def
          exampleEnv_def closed_def onSale_def idle_def)
  show ?thesis
    using baseline_stored [OF i(1), of ?E onSale] baseline_stored [OF i(2), of ?E onSale]
      i n f b
    by simp
qed

text \<open>
  Claim C1, as amended. In a cycle that starts with the guard clear and whose fetch gives
  the current status, the status changes handed to the transport are these, in this
  order. With no previous status: none. With a previous status: one for Aktobe, with the
  current link, exactly when Aktobe was disabled and is now enabled; then one for Real
  Madrid, with the current link, exactly when Real Madrid was disabled and is now
  enabled and the notification for Aktobe, when one was due, was sent without an
  error. So a status change is sent only on a change from disabled to enabled, and on
  every such change unless an earlier notification of the cycle has thrown.
\<close>

theorem status_change_edge_triggered:
  assumes "\<not> isChecking w"
    and "parseButtonsWithRetry E (w\<lparr>isChecking := True\<rparr>) = (Inr cur, w1)"
  shows "statusChanges (events (snd (checkAndNotify E w))) =
     statusChanges (events w) @
     (case previousStatus w of
        None \<Rightarrow> []
      | Some prev \<Rightarrow>
          (if \<not> isEnabled (aktobe prev) \<and> isEnabled (aktobe cur)
           then [(TITLE_AKTOBE, href (aktobe cur))] else []) @
          (if \<not> isEnabled (realMadrid prev) \<and> isEnabled (realMadrid cur) \<and>
              (\<not> isEnabled (aktobe prev) \<and> isEnabled (aktobe cur) \<longrightarrow>
                 bot_sendMessage E (length (events w1)) (CHAT_ID E)
                   (StatusChange TITLE_AKTOBE (href (aktobe cur))) = None)
           then [(TITLE_REAL_MADRID, href (realMadrid cur))] else []))"
proof -
  let ?w = "w\<lparr>isChecking := True\<rparr>"
  obtain r w2 where b: "checkBody E ?w = (r, w2)" by (cases "checkBody E ?w")
  have s1: "sends (events w1) = sends (events w)"
    using retry_frame(3) [of E ?w] assms(2) by simp
  have s2: "sends (events w2) =
              sends (events (snd (notifyChanges E (previousStatus w) cur w1)))"
    using checkBody_fetched(2) [OF assms(2)] b by simp
  have s3: "statusChanges (events (snd (checkAndNotify E w))) = statusChanges (events w2)"
    using checkAndNotify_run [OF assms(1) b]
    by (cases r)
       (simp_all add: sendError_def sendNotification_snd statusChanges_def sends_append)
  show ?thesis
    unfolding s3 unfolding statusChanges_def s2 notifyChanges_sends s1
    by (simp split: option.splits)
qed

text \<open>
  From nothing on sale to both on sale, with a transport that delivers: both status
  changes, Aktobe first. From both on sale to both on sale: none.
\<close>

theorem status_change_edge_triggered_witness:
  "\<not> isChecking (idle (Some closed)) \<and>
   parseButtonsWithRetry (exampleEnv siteOnSale None) (idle (Some closed)\<lparr>isChecking := True\<rparr>) =
     (Inr onSale, \<lparr>previousStatus = Some closed, isChecking = True, events = [Get]\<rparr>) \<and>
   statusChanges (events (snd (checkAndNotify (exampleEnv siteOnSale None) (idle (Some closed))))) =
     [(TITLE_AKTOBE, str ''https://fckairat.com/tickets/1''),
      (TITLE_REAL_MADRID, str ''https://fckairat.com/tickets/1'')] \<and>
   \<not> isChecking (idle (Some onSale)) \<and>
   statusChanges (events (snd (checkAndNotify (exampleEnv siteOnSale None) (idle (Some onSale))))) =
     []"
proof -
  let ?E = "exampleEnv siteOnSale None"
  have i: "\<not> isChecking (idle previous)" for previous
    by (simp add: idle_def)
  note p = retry_onSale [where send = None and c = True]
  have e: "statusChanges (events (idle previous)) = []"
          "previousStatus (idle previous) = previous" for previous
    by (simp_all add: idle_def statusChanges_def)
  have t: "bot_sendMessage ?E n c m = None" for n c m
    by (simp add: exampleEnv_def)
  show ?thesis
    using status_change_edge_triggered [OF i p [where previous = "Some closed"]]
      status_change_edge_triggered [OF i p [where previous = "Some onSale"]]
      i p [where previous = "Some closed"] e t
    by (simp add: closed_def onSale_def)
qed

text \<open>
  The claim as it was stated fails when the transport rejects the first notification:
  from nothing on sale to both on sale, Real Madrid changes from disabled to enabled,
  and the only status change handed to the transport is the one for Aktobe.
\<close>

theorem status_change_lost_after_failed_send:
  "\<not> isChecking (idle (Some closed)) \<and>
   previousStatus (idle (Some closed)) = Some closed \<and>
   fst (parseButtonsWithRetry (exampleEnv siteOnSale (Some telegramDown))
          (idle (Some closed)\<lparr>isChecking := True\<rparr>)) = Inr onSale \<and>
   \<not> isEnabled (realMadrid closed) \<and> isEnabled (realMadrid onSale) \<and>
   statusChanges
     (events (snd (checkAndNotify (exampleEnv siteOnSale (Some telegramDown)) (idle (Some closed))))) =
     [(TITLE_AKTOBE, str ''https://fckairat.com/tickets/1'')] \<and>
   TITLE_REAL_MADRID \<noteq> TITLE_AKTOBE"
  using retry_onSale [where send = "Some telegramDown" and previous = "Some closed" and c = True]
  by (simp add: checkAndNotify_def checkBody_def notifyChanges_def sendStatusChange_def
        sendError_def sendNotification_def emit_def statusChanges_def exampleEnv_def
        closed_def onSale_def idle_def TITLE_AKTOBE_def TITLE_REAL_MADRID_def)

text \<open>
  Claim C3, as amended. In a cycle whose \<open>try\<close> block throws, from the fetch after
  its retry or from a notification, exactly one error note is handed to the transport.
  Its text is the message of what was thrown when that is an \<open>Error\<close>, and
  \<open>Unknown error\<close> when it is any other value. The previous status is the one
  the cycle found. The cycle returns normally when the transport accepts the error
  note; when the transport rejects it, the cycle rejects with what the transport
  threw. In both cases the guard is clear when the cycle returns.
\<close>

theorem error_cycle_notifies_once:
  assumes "\<not> isChecking w"
    and "checkBody E (w\<lparr>isChecking := True\<rparr>) = (Inl error, w1)"
  shows "errorNotes (events (snd (checkAndNotify E w))) =
           errorNotes (events w) @ [errorText error] \<and>
         previousStatus (snd (checkAndNotify E w)) = previousStatus w \<and>
         fst (checkAndNotify E w) =
           (case bot_sendMessage E (length (events w1)) (CHAT_ID E)
                   (ErrorNote (errorText error) (formatInTimeZone E (length (events w1)))) of
              None \<Rightarrow> Inr ()
            | Some e \<Rightarrow> Inl e) \<and>
         \<not> isChecking (snd (checkAndNotify E w)) \<and>
         errorText (JsError message) = message \<and>
         errorText NonError = str ''Unknown error''"
proof -
  let ?w = "w\<lparr>isChecking := True\<rparr>"
  note run = checkAndNotify_run [OF assms]
  obtain r0 w0 where p: "parseButtonsWithRetry E ?w = (r0, w0)"
    by (cases "parseButtonsWithRetry E ?w")
  have frame: "previousStatus w1 = previousStatus w \<and>
               errorNotes (events w1) = errorNotes (events w)"
  proof (cases r0)
    case (Inl e)
    then have "w1 = w0" using checkBody_failed [of E ?w e w0] p assms(2) by simp
    then show ?thesis
      using retry_frame(1,3) [of E ?w] p by (simp add: errorNotes_def)
  next
    case (Inr result)
    with p have p': "parseButtonsWithRetry E ?w = (Inr result, w0)" by simp
    have "sends (events w0) = sends (events w)"
      using retry_frame(3) [of E ?w] p by simp
    then have "errorNotes (events w1) = errorNotes (events w)"
      using checkBody_fetched(2) [OF p'] assms(2)
      by (simp add: errorNotes_def notifyChanges_sends split: option.splits)
    moreover have "previousStatus w1 = previousStatus w"
      using checkBody_fetched(4) [OF p'] assms(2) by simp
    ultimately show ?thesis by simp
  qed
  have "errorNotes (events (snd (checkAndNotify E w))) = errorNotes (events w) @ [errorText error]"
    using run frame
    by (simp add: sendError_def sendNotification_snd errorNotes_def sends_append)
  moreover have "previousStatus (snd (checkAndNotify E w)) = previousStatus w"
    using run frame by (simp add: sendError_def sendNotification_snd)
  moreover have "fst (checkAndNotify E w) =
           (case bot_sendMessage E (length (events w1)) (CHAT_ID E)
                   (ErrorNote (errorText error) (formatInTimeZone E (length (events w1)))) of
              None \<Rightarrow> Inr ()
            | Some e \<Rightarrow> Inl e)"
    using run by (simp add: sendError_def sendNotification_fst getFormattedTime_def)
  moreover have "\<not> isChecking (snd (checkAndNotify E w))"
    using run by simp
  moreover have "errorText (JsError message) = message"
    and "errorText NonError = str ''Unknown error''"
    by (simp_all add: errorText_def)
  ultimately show ?thesis by simp
qed

text \<open>
  The site times out twice and the transport delivers: one error note with the HTTP
  error, a normal return, the previous status kept. The site has both on sale and the
  transport is down: the notification for Aktobe throws, one error note with what it
  threw, the previous status kept, and the cycle rejects.
\<close>

theorem error_cycle_notifies_once_witness:
  "\<not> isChecking (idle (Some closed)) \<and>
   checkBody (exampleEnv siteDown None) (idle (Some closed)\<lparr>isChecking := True\<rparr>) =
     (Inl (JsError (str ''HTTP error: timeout of 10000ms exceeded'')),
      \<lparr>previousStatus = Some closed, isChecking = True, events = [Get, Sleep 2000, Get]\<rparr>) \<and>
   errorNotes (events (snd (checkAndNotify (exampleEnv siteDown None) (idle (Some closed))))) =
     [str ''HTTP error: timeout of 10000ms exceeded''] \<and>
   previousStatus (snd (checkAndNotify (exampleEnv siteDown None) (idle (Some closed)))) =
     Some closed \<and>
   fst (checkAndNotify (exampleEnv siteDown None) (idle (Some closed))) = Inr () \<and>
   \<not> isChecking (snd (checkAndNotify (exampleEnv siteDown None) (idle (Some closed)))) \<and>
   checkBody (exampleEnv siteOnSale (Some telegramDown)) (idle (Some closed)\<lparr>isChecking := True\<rparr>) =
     (Inl telegramDown,
      \<lparr>previousStatus = Some closed, isChecking = True,
        events = [Get, Send (str ''42'')
                    (StatusChange TITLE_AKTOBE (str ''https://fckairat.com/tickets/1''))]\<rparr>) \<and>
   errorNotes
     (events (snd (checkAndNotify (exampleEnv siteOnSale (Some telegramDown)) (idle (Some closed))))) =
     [str ''ETELEGRAM: 502 Bad Gateway''] \<and>
   previousStatus
     (snd (checkAndNotify (exampleEnv siteOnSale (Some telegramDown)) (idle (Some closed)))) =
     Some closed \<and>
   fst (checkAndNotify (exampleEnv siteOnSale (Some telegramDown)) (idle (Some closed))) =
     Inl telegramDown \<and>
   \<not> isChecking
       (snd (checkAndNotify (exampleEnv siteOnSale (Some telegramDown)) (idle (Some closed))))"
proof -
  have i: "\<not> isChecking (idle (Some closed))"
    by (simp add: idle_def)
  note b = checkBody_failed
    [OF retry_down [where send = None and previous = "Some closed" and c = True]]
  have b': "checkBody (exampleEnv siteOnSale (Some telegramDown))
              (idle (Some closed)\<lparr>isChecking := True\<rparr>) =
     (Inl telegramDown,
      \<lparr>previousStatus = Some closed, isChecking = True,
        events = [Get, Send (str ''42'')
                    (StatusChange TITLE_AKTOBE (str ''https://fckairat.com/tickets/1''))]\<rparr>)"
    using retry_onSale [where send = "Some telegramDown" and previous = "Some closed" and c = True]
    by (simp add: checkBody_def notifyChanges_def sendStatusChange_def sendNotification_def
          emit_def exampleEnv_def closed_def onSale_def)
  have e: "errorNotes (events (idle (Some closed))) = []"
          "previousStatus (idle (Some closed)) = Some closed"
    by (simp_all add: idle_def errorNotes_def)
  have t: "bot_sendMessage (exampleEnv get send) n c m = send" for get send n c m
    by (simp add: exampleEnv_def)
  show ?thesis
    using error_cycle_notifies_once [OF i b] error_cycle_notifies_once [OF i b'] i b b' e t
    by (simp add: errorText_def telegramDown_def)
qed

text \<open>
  The claim as it was stated fails when the transport is down as well: the fetch throws
  after its retry, and the cycle does not return normally, it rejects.
\<close>

theorem error_cycle_rejects:
  "\<not> isChecking (idle None) \<and>
   fst (checkBody (exampleEnv siteDown (Some telegramDown)) (idle None\<lparr>isChecking := True\<rparr>)) =
     Inl (JsError (str ''HTTP error: timeout of 10000ms exceeded'')) \<and>
   fst (checkAndNotify (exampleEnv siteDown (Some telegramDown)) (idle None)) = Inl telegramDown \<and>
   Inl telegramDown \<noteq> (Inr () :: thrown + unit)"
  using retry_down [where send = "Some telegramDown" and previous = None and c = True]
  by (simp add: checkAndNotify_def checkBody_def sendError_def sendNotification_def
        exampleEnv_def idle_def)

section \<open>What the scan of the blocks gives\<close>

text \<open>
  Claim C5, as amended. The block selected for a name is the first block that has the
  name among its trimmed team names and a ticket button. The scan makes the status of
  that block: it is enabled exactly when no ticket button of the block has the class
  \<open>disabled\<close>; its link is the empty string when the first ticket button has no
  \<open>href\<close> attribute or an empty one, and the absolute URL that the URL parser makes
  of that attribute against \<open>BASE_URL\<close> when the attribute is there, not empty, and
  the parser accepts it. When the attribute is there, not empty, and the parser rejects
  it, there is no status: the scan throws what the parser throws.
\<close>

theorem selected_block_status:
  assumes "List.find (\<lambda>b. foundOpponent (teamNames b) name \<and> buttons b \<noteq> []) blocks = Some b"
  shows "findMatchByOpponent url blocks name =
     (let available = (\<forall>e \<in> set (buttons b). str ''disabled'' \<notin> set (classes e)) in
      case hrefAttr (hd (buttons b)) of
        None \<Rightarrow> Inr (Some \<lparr>isEnabled = available, href = []\<rparr>)
      | Some h \<Rightarrow>
          if h = [] then Inr (Some \<lparr>isEnabled = available, href = []\<rparr>)
          else (case url h BASE_URL of
                  Inl e \<Rightarrow> Inl e
                | Inr u \<Rightarrow> Inr (Some \<lparr>isEnabled = available, href = u\<rparr>)))"
  using assms
proof (induction blocks)
  case Nil
  then show ?case by simp
next
  case (Cons x xs)
  show ?case
  proof (cases "foundOpponent (teamNames x) name \<and> buttons x \<noteq> []")
    case True
    then have "b = x" using Cons.prems by simp
    moreover obtain e es where "buttons x = e # es"
      using True by (cases "buttons x") simp_all
    ultimately show ?thesis
      using True by (simp add: hasClass_def attrHref_def list_ex_iff Let_def)
  next
    case False
    have "List.find (\<lambda>b. foundOpponent (teamNames b) name \<and> buttons b \<noteq> []) (x # xs) =
          List.find (\<lambda>b. foundOpponent (teamNames b) name \<and> buttons b \<noteq> []) xs"
      using False by (simp only: find.simps if_False)
    then have "List.find (\<lambda>b. foundOpponent (teamNames b) name \<and> buttons b \<noteq> []) xs = Some b"
      using Cons.prems by simp
    then show ?thesis
      using Cons.IH False by auto
  qed
qed

text \<open>
  On the page with both on sale the block selected for Real Madrid is the second one;
  its status is enabled, with the link of its button made absolute. On the page whose
  button has a link that is no URL, the block is selected and the scan throws.
\<close>

theorem selected_block_status_witness:
  "List.find (\<lambda>b. foundOpponent (teamNames b) REAL_MADRID \<and> buttons b \<noteq> []) pageOnSale =
     Some (realMadridBlock [openButton]) \<and>
   findMatchByOpponent exampleURL pageOnSale REAL_MADRID =
     Inr (Some \<lparr>isEnabled = True, href = str ''https://fckairat.com/tickets/1''\<rparr>) \<and>
   List.find (\<lambda>b. foundOpponent (teamNames b) REAL_MADRID \<and> buttons b \<noteq> []) pageBrokenLink =
     Some (realMadridBlock [brokenButton]) \<and>
   hrefAttr brokenButton = Some (str ''http://['') \<and>
   findMatchByOpponent exampleURL pageBrokenLink REAL_MADRID = Inl (JsError (str ''Invalid URL''))"
proof -
  have f: "List.find (\<lambda>b. foundOpponent (teamNames b) REAL_MADRID \<and> buttons b \<noteq> []) pageOnSale =
     Some (realMadridBlock [openButton])"
    by (simp add: pageOnSale_def found_examples buttons_examples)
  have g: "List.find (\<lambda>b. foundOpponent (teamNames b) REAL_MADRID \<and> buttons b \<noteq> [])
             pageBrokenLink = Some (realMadridBlock [brokenButton])"
    by (simp add: pageBrokenLink_def found_examples buttons_examples)
  show ?thesis
    using f g selected_block_status [OF f, of exampleURL]
      selected_block_status [OF g, of exampleURL]
    by (simp add: buttons_examples openButton_def brokenButton_def buttonClasses_def
          exampleURL_def BASE_URL_def str_def)
qed

text \<open>
  The claim as it was stated fails on an \<open>href\<close> attribute that is there and empty:
  resolved against the base it is the base, and the link that the scan gives is the
  empty string.
\<close>

theorem empty_href_not_resolved:
  "List.find (\<lambda>b. foundOpponent (teamNames b) REAL_MADRID \<and> buttons b \<noteq> []) pageClosed =
     Some (realMadridBlock [disabledButton]) \<and>
   hrefAttr disabledButton = Some [] \<and>
   exampleURL [] BASE_URL = Inr BASE_URL \<and>
   findMatchByOpponent exampleURL pageClosed REAL_MADRID =
     Inr (Some \<lparr>isEnabled = False, href = []\<rparr>) \<and>
   BASE_URL \<noteq> []"
  using scan_closed(2)
  by (simp add: pageClosed_def aktobeBlock_def realMadridBlock_def disabledButton_def
        exampleURL_def closed_def trim_def isWhiteSpace_def AKTOBE_def REAL_MADRID_def
        BASE_URL_def str_def)

text \<open>
  Claim C6, as amended. Whenever the scan of a name gives nothing the fetch produces no
  result, and a cycle whose two attempts both load such a page leaves the previous
  status as it found it. On a page with blocks the error of the fetch is then this:
  when the scan for Aktobe gives nothing, the error that names Aktobe, unless the scan
  for Real Madrid throws, and then what it throws; when the scan for Aktobe gives a
  status and the one for Real Madrid gives nothing, the error that names Real Madrid.
  The two errors differ. When the scan for Aktobe throws, the fetch throws the same.
\<close>

theorem missing_entity_fails:
  "(blocks \<noteq> [] \<and> findMatchByOpponent url blocks AKTOBE = Inr None \<longrightarrow>
    parsePage url (Loaded blocks) =
      (case findMatchByOpponent url blocks REAL_MADRID of
         Inl e \<Rightarrow> Inl e
       | Inr r \<Rightarrow> Inl (JsError (matchNotFound AKTOBE)))) \<and>
   (blocks \<noteq> [] \<and> findMatchByOpponent url blocks AKTOBE = Inr (Some a) \<and>
      findMatchByOpponent url blocks REAL_MADRID = Inr None \<longrightarrow>
    parsePage url (Loaded blocks) = Inl (JsError (matchNotFound REAL_MADRID))) \<and>
   (blocks \<noteq> [] \<and> findMatchByOpponent url blocks AKTOBE = Inl e \<longrightarrow>
    parsePage url (Loaded blocks) = Inl e) \<and>
   (findMatchByOpponent url blocks AKTOBE = Inr None \<or>
      findMatchByOpponent url blocks REAL_MADRID = Inr None \<longrightarrow>
    (\<forall>result. parsePage url (Loaded blocks) \<noteq> Inr result)) \<and>
   matchNotFound AKTOBE \<noteq> matchNotFound REAL_MADRID \<and>
   (\<not> isChecking w \<and>
      axios_get E (length (events w)) = Loaded page1 \<and>
      axios_get E (length (events w) + 2) = Loaded page2 \<and>
      (findMatchByOpponent (new_URL E) page1 AKTOBE = Inr None \<or>
         findMatchByOpponent (new_URL E) page1 REAL_MADRID = Inr None) \<and>
      (findMatchByOpponent (new_URL E) page2 AKTOBE = Inr None \<or>
         findMatchByOpponent (new_URL E) page2 REAL_MADRID = Inr None) \<longrightarrow>
    previousStatus (snd (checkAndNotify E w)) = previousStatus w)"
proof (intro conjI impI allI)
  show "parsePage url (Loaded blocks) =
      (case findMatchByOpponent url blocks REAL_MADRID of
         Inl e \<Rightarrow> Inl e
       | Inr r \<Rightarrow> Inl (JsError (matchNotFound AKTOBE)))"
    if "blocks \<noteq> [] \<and> findMatchByOpponent url blocks AKTOBE = Inr None"
    using that by (simp add: parsePage_def split: sum.splits)
  show "parsePage url (Loaded blocks) = Inl (JsError (matchNotFound REAL_MADRID))"
    if "blocks \<noteq> [] \<and> findMatchByOpponent url blocks AKTOBE = Inr (Some a) \<and>
        findMatchByOpponent url blocks REAL_MADRID = Inr None"
    using that by (simp add: parsePage_def)
  show "parsePage url (Loaded blocks) = Inl e"
    if "blocks \<noteq> [] \<and> findMatchByOpponent url blocks AKTOBE = Inl e"
    using that by (simp add: parsePage_def)
  show "parsePage url (Loaded blocks) \<noteq> Inr result"
    if "findMatchByOpponent url blocks AKTOBE = Inr None \<or>
        findMatchByOpponent url blocks REAL_MADRID = Inr None" for result
    using that by (rule parsePage_null)
  show "matchNotFound AKTOBE \<noteq> matchNotFound REAL_MADRID"
    by (rule matchNotFound_distinct)
  show "previousStatus (snd (checkAndNotify E w)) = previousStatus w"
    if h: "\<not> isChecking w \<and>
      axios_get E (length (events w)) = Loaded page1 \<and>
      axios_get E (length (events w) + 2) = Loaded page2 \<and>
      (findMatchByOpponent (new_URL E) page1 AKTOBE = Inr None \<or>
         findMatchByOpponent (new_URL E) page1 REAL_MADRID = Inr None) \<and>
      (findMatchByOpponent (new_URL E) page2 AKTOBE = Inr None \<or>
         findMatchByOpponent (new_URL E) page2 REAL_MADRID = Inr None)"
  proof -
    obtain e1 where e1: "parsePage (new_URL E) (Loaded page1) = Inl e1"
      using h parsePage_null [of "new_URL E" page1]
      by (cases "parsePage (new_URL E) (Loaded page1)") auto
    obtain e2 where e2: "parsePage (new_URL E) (Loaded page2) = Inl e2"
      using h parsePage_null [of "new_URL E" page2]
      by (cases "parsePage (new_URL E) (Loaded page2)") auto
    have "fst (parseButtonsWithRetry E (w\<lparr>isChecking := True\<rparr>)) = Inl e2"
      using h e1 e2 by (simp add: parseButtonsWithRetry_unfold)
    then show ?thesis
      using h failed_fetch_keeps_previous [of w E e2] by simp
  qed
qed

text \<open>
  The page with only a block of Real Madrid that has no button: neither scan gives a
  status, the error names Aktobe. The page with only the block of Aktobe: the error
  names Real Madrid. The page with only a block of Real Madrid whose link is no URL:
  the scan for Aktobe gives nothing, the one for Real Madrid throws, and so does the
  fetch. A site that keeps the page where Real Madrid has lost its button: the cycle
  keeps the previous status.
\<close>

theorem missing_entity_fails_witness:
  "pageNoButton \<noteq> [] \<and>
   findMatchByOpponent exampleURL pageNoButton AKTOBE = Inr None \<and>
   findMatchByOpponent exampleURL pageNoButton REAL_MADRID = Inr None \<and>
   parsePage exampleURL (Loaded pageNoButton) = Inl (JsError (matchNotFound AKTOBE)) \<and>
   pageAktobeOnly \<noteq> [] \<and>
   findMatchByOpponent exampleURL pageAktobeOnly AKTOBE = Inr (Some (aktobe onSale)) \<and>
   findMatchByOpponent exampleURL pageAktobeOnly REAL_MADRID = Inr None \<and>
   parsePage exampleURL (Loaded pageAktobeOnly) = Inl (JsError (matchNotFound REAL_MADRID)) \<and>
   pageBrokenLink \<noteq> [] \<and>
   findMatchByOpponent exampleURL pageBrokenLink AKTOBE = Inr None \<and>
   findMatchByOpponent exampleURL pageBrokenLink REAL_MADRID = Inl (JsError (str ''Invalid URL'')) \<and>
   parsePage exampleURL (Loaded pageBrokenLink) = Inl (JsError (str ''Invalid URL'')) \<and>
   \<not> isChecking (idle (Some closed)) \<and>
   axios_get (exampleEnv siteNoButton None) 0 = Loaded pageRealMadridNoButton \<and>
   axios_get (exampleEnv siteNoButton None) 2 = Loaded pageRealMadridNoButton \<and>
   findMatchByOpponent exampleURL pageRealMadridNoButton REAL_MADRID = Inr None \<and>
   previousStatus (snd (checkAndNotify (exampleEnv siteNoButton None) (idle (Some closed)))) =
     Some closed"
proof -
  have n: "pageNoButton \<noteq> []" "pageAktobeOnly \<noteq> []" "pageBrokenLink \<noteq> []"
    by (simp_all add: pageNoButton_def pageAktobeOnly_def pageBrokenLink_def)
  have i: "\<not> isChecking (idle (Some closed))" "events (idle (Some closed)) = []"
    "previousStatus (idle (Some closed)) = Some closed"
    by (simp_all add: idle_def)
  have g: "axios_get (exampleEnv siteNoButton None) k = Loaded pageRealMadridNoButton"
    "new_URL (exampleEnv siteNoButton None) = exampleURL" for k
    by (simp_all add: exampleEnv_def siteNoButton_def)
  show ?thesis
    using missing_entity_fails [where url = exampleURL and blocks = pageNoButton]
      missing_entity_fails [where url = exampleURL and blocks = pageAktobeOnly
        and a = "aktobe onSale"]
      missing_entity_fails [where url = exampleURL and blocks = pageBrokenLink]
      missing_entity_fails [where E = "exampleEnv siteNoButton None"
        and w = "idle (Some closed)" and ?page1.0 = pageRealMadridNoButton
        and ?page2.0 = pageRealMadridNoButton]
      n i g scan_partial scan_broken
    by simp
qed

text \<open>
  The claim as it was stated fails on the page with only a block of Real Madrid whose
  link is no URL: the scan for Aktobe gives nothing, and the error of the fetch is the
  one of the URL parser, which names neither match.
\<close>

theorem missing_aktobe_reports_invalid_url:
  "pageBrokenLink \<noteq> [] \<and>
   findMatchByOpponent exampleURL pageBrokenLink AKTOBE = Inr None \<and>
   parsePage exampleURL (Loaded pageBrokenLink) = Inl (JsError (str ''Invalid URL'')) \<and>
   str ''Invalid URL'' \<noteq> matchNotFound AKTOBE \<and>
   str ''Invalid URL'' \<noteq> matchNotFound REAL_MADRID"
  using scan_broken
  by (simp add: parsePage_def pageBrokenLink_def matchNotFound_def str_def)

text \<open>
  Claim C10, as amended. A block that has the name but no ticket button is skipped: the
  scan goes on with the blocks after it. So when every block with the name lacks the
  button the scan gives nothing, and on a page with blocks the fetch then fails without
  a result: for Aktobe, with the error that names Aktobe (or with what the scan for
  Real Madrid throws); for Real Madrid, with the error that names Real Madrid when the
  scan for Aktobe gave a status, and with the error that names Aktobe when that scan
  gave nothing too (or with what it throws). The missing button is never turned into a
  disabled status.
\<close>

theorem buttonless_block_skipped:
  "(foundOpponent (teamNames b) name \<and> buttons b = [] \<longrightarrow>
      findMatchByOpponent url (b # rest) name = findMatchByOpponent url rest name) \<and>
   ((\<forall>b \<in> set blocks. foundOpponent (teamNames b) name \<longrightarrow> buttons b = []) \<longrightarrow>
      findMatchByOpponent url blocks name = Inr None) \<and>
   (blocks \<noteq> [] \<and> (\<forall>b \<in> set blocks. foundOpponent (teamNames b) AKTOBE \<longrightarrow> buttons b = []) \<longrightarrow>
      parsePage url (Loaded blocks) =
        (case findMatchByOpponent url blocks REAL_MADRID of
           Inl e \<Rightarrow> Inl e
         | Inr r \<Rightarrow> Inl (JsError (matchNotFound AKTOBE)))) \<and>
   (blocks \<noteq> [] \<and> (\<forall>b \<in> set blocks. foundOpponent (teamNames b) REAL_MADRID \<longrightarrow> buttons b = []) \<longrightarrow>
      parsePage url (Loaded blocks) =
        (case findMatchByOpponent url blocks AKTOBE of
           Inl e \<Rightarrow> Inl e
         | Inr None \<Rightarrow> Inl (JsError (matchNotFound AKTOBE))
         | Inr (Some a) \<Rightarrow> Inl (JsError (matchNotFound REAL_MADRID))))"
proof (intro conjI impI)
  show "findMatchByOpponent url (b # rest) name = findMatchByOpponent url rest name"
    if "foundOpponent (teamNames b) name \<and> buttons b = []"
    using that by simp
  show "findMatchByOpponent url blocks name = Inr None"
    if "\<forall>b \<in> set blocks. foundOpponent (teamNames b) name \<longrightarrow> buttons b = []"
    using that by (rule scan_without_button)
  show "parsePage url (Loaded blocks) =
        (case findMatchByOpponent url blocks REAL_MADRID of
           Inl e \<Rightarrow> Inl e
         | Inr r \<Rightarrow> Inl (JsError (matchNotFound AKTOBE)))"
    if "blocks \<noteq> [] \<and> (\<forall>b \<in> set blocks. foundOpponent (teamNames b) AKTOBE \<longrightarrow> buttons b = [])"
    using that scan_without_button [of blocks AKTOBE url]
    by (simp add: parsePage_def split: sum.splits)
  show "parsePage url (Loaded blocks) =
        (case findMatchByOpponent url blocks AKTOBE of
           Inl e \<Rightarrow> Inl e
         | Inr None \<Rightarrow> Inl (JsError (matchNotFound AKTOBE))
         | Inr (Some a) \<Rightarrow> Inl (JsError (matchNotFound REAL_MADRID)))"
    if "blocks \<noteq> [] \<and> (\<forall>b \<in> set blocks. foundOpponent (teamNames b) REAL_MADRID \<longrightarrow> buttons b = [])"
    using that scan_without_button [of blocks REAL_MADRID url]
    by (simp add: parsePage_def split: sum.splits option.splits)
qed

text \<open>
  A block of Real Madrid without a button before the page with both on sale: the scan
  gives the status of the later block. The page where Real Madrid has lost its button:
  the scan gives nothing and the error names Real Madrid. The page where Aktobe has
  lost its button: the error names Aktobe.
\<close>

theorem buttonless_block_skipped_witness:
  "foundOpponent (teamNames (realMadridBlock [])) REAL_MADRID \<and>
   buttons (realMadridBlock []) = [] \<and>
   findMatchByOpponent exampleURL (realMadridBlock [] # pageOnSale) REAL_MADRID =
     Inr (Some (realMadrid onSale)) \<and>
   pageRealMadridNoButton = [aktobeBlock [openButton], realMadridBlock []] \<and>
   \<not> foundOpponent (teamNames (aktobeBlock [openButton])) REAL_MADRID \<and>
   findMatchByOpponent exampleURL pageRealMadridNoButton REAL_MADRID = Inr None \<and>
   parsePage exampleURL (Loaded pageRealMadridNoButton) =
     Inl (JsError (matchNotFound REAL_MADRID)) \<and>
   pageAktobeNoButton = [aktobeBlock [], realMadridBlock [openButton]] \<and>
   foundOpponent (teamNames (aktobeBlock [])) AKTOBE \<and> buttons (aktobeBlock []) = [] \<and>
   \<not> foundOpponent (teamNames (realMadridBlock [openButton])) AKTOBE \<and>
   parsePage exampleURL (Loaded pageAktobeNoButton) = Inl (JsError (matchNotFound AKTOBE))"
proof -
  have p: "pageRealMadridNoButton = [aktobeBlock [openButton], realMadridBlock []]"
    "pageAktobeNoButton = [aktobeBlock [], realMadridBlock [openButton]]"
    by (simp_all add: pageRealMadridNoButton_def pageAktobeNoButton_def)
  have a: "\<forall>b \<in> set pageRealMadridNoButton.
             foundOpponent (teamNames b) REAL_MADRID \<longrightarrow> buttons b = []"
    "\<forall>b \<in> set pageAktobeNoButton. foundOpponent (teamNames b) AKTOBE \<longrightarrow> buttons b = []"
    by (simp_all add: p found_examples buttons_examples)
  have n: "pageRealMadridNoButton \<noteq> []" "pageAktobeNoButton \<noteq> []"
    by (simp_all add: p)
  have 1: "findMatchByOpponent exampleURL (realMadridBlock [] # pageOnSale) REAL_MADRID =
      findMatchByOpponent exampleURL pageOnSale REAL_MADRID"
    using buttonless_block_skipped
      [where b = "realMadridBlock []" and name = REAL_MADRID and url = exampleURL
         and rest = pageOnSale]
    by (simp add: found_examples buttons_examples)
  have 2: "findMatchByOpponent exampleURL pageRealMadridNoButton REAL_MADRID = Inr None"
    "parsePage exampleURL (Loaded pageRealMadridNoButton) =
       Inl (JsError (matchNotFound REAL_MADRID))"
    using buttonless_block_skipped
      [where blocks = pageRealMadridNoButton and name = REAL_MADRID and url = exampleURL]
      a(1) n(1) scan_partial(7)
    by simp_all
  have 3: "parsePage exampleURL (Loaded pageAktobeNoButton) =
       Inl (JsError (matchNotFound AKTOBE))"
    using buttonless_block_skipped
      [where blocks = pageAktobeNoButton and name = AKTOBE and url = exampleURL]
      a(2) n(2) scan_partial(6)
    by simp
  show ?thesis
    using 1 2 3 p scan_onSale(2) by (simp add: found_examples buttons_examples)
qed

text \<open>
  The claim as it was stated fails for Real Madrid on a page that has lost Aktobe as
  well: every block with the name of Real Madrid lacks the button, and the error of the
  fetch names Aktobe, not Real Madrid.
\<close>

theorem buttonless_real_madrid_reports_aktobe:
  "pageNoButton = [realMadridBlock []] \<and>
   foundOpponent (teamNames (realMadridBlock [])) REAL_MADRID \<and>
   buttons (realMadridBlock []) = [] \<and>
   parsePage exampleURL (Loaded pageNoButton) = Inl (JsError (matchNotFound AKTOBE)) \<and>
   matchNotFound AKTOBE \<noteq> matchNotFound REAL_MADRID"
  using scan_partial(1,2) matchNotFound_distinct
  by (simp add: parsePage_def pageNoButton_def found_examples buttons_examples)

end
